theory Spec2Isabelle
  imports Complex_Main "HOL-Library.Word"
begin

section \<open>Errors raised by the scripts\<close>

text \<open>
  Exceptions of the Python interpreter and of numpy that the two scripts can raise are
  values. Every function of the model that can raise returns \<open>py_error + 'a\<close>.
\<close>

datatype py_error =
    AttributeError string
  | ValueError string
  | TypeError string
  | ZeroDivisionError

section \<open>Arrays and images\<close>

text \<open>
  A numpy array is its shape (a Python tuple of ints) with its elements in row-major
  order. \<open>array(Image.open(f))\<close> gives unsigned 8-bit elements.
\<close>

record 'a ndarray =
  shape :: "nat list"
  elems :: "'a list"

type_synonym uint8 = "8 word"

text \<open>The configuration keys that \<open>__init__\<close> reads (\<open>CONFIG\<close> in both scripts).\<close>

record config =
  size_cfg :: nat
  ngf :: nat
  nz :: nat
  nc :: nat
  ndf :: nat
  lr :: real
  beta1 :: real
  alpha :: real
  src_path :: string
  otp_path :: string

definition DCGAN_CONFIG :: config where
  "DCGAN_CONFIG = \<lparr> size_cfg = 64, ngf = 64, nz = 200, nc = 3, ndf = 64,
     lr = 0.0002, beta1 = 0.5, alpha = 0.2,
     src_path = ''../input/hands_64'', otp_path = ''../output'' \<rparr>"

text \<open>
  The CycleGAN \<open>CONFIG\<close> has \<open>nx\<close> and \<open>ny\<close> where the DCGAN one has \<open>nz\<close>, and no
  paths: it is a record of its own.
\<close>

record cyc_config =
  c_size :: nat
  c_ngf :: nat
  c_nx :: nat
  c_ny :: nat
  c_nc :: nat
  c_ndf :: nat
  c_lr :: real
  c_beta1 :: real
  c_alpha :: real

definition CYCLEGAN_CONFIG :: cyc_config where
  "CYCLEGAN_CONFIG = \<lparr> c_size = 32, c_ngf = 16, c_nx = 100, c_ny = 100, c_nc = 3,
     c_ndf = 64, c_lr = 0.0002, c_beta1 = 0.5, c_alpha = 0.2 \<rparr>"

definition img_shape :: "config \<Rightarrow> nat list" where
  "img_shape cfg = [size_cfg cfg, size_cfg cfg, nc cfg]"

definition c_img_shape :: "cyc_config \<Rightarrow> nat list" where
  "c_img_shape cfg = [c_size cfg, c_size cfg, c_nc cfg]"

section \<open>String formatting\<close>

text \<open>The decimal digits of a non-negative int, as \<open>str\<close> and \<open>%i\<close> print them.\<close>

definition digit_char :: "nat \<Rightarrow> char" where
  "digit_char d = char_of (48 + d)"

fun str_nat :: "nat \<Rightarrow> string" where
  "str_nat n = (if n < 10 then [digit_char n] else str_nat (n div 10) @ [digit_char (n mod 10)])"

declare str_nat.simps [simp del]

text \<open>\<open>'%04i' % n\<close> for \<open>n \<ge> 0\<close>: the digits, padded with zeros on the left to width 4.\<close>

definition fmt_04i :: "nat \<Rightarrow> string" where
  "fmt_04i n = replicate (4 - length (str_nat n)) (CHR ''0'') @ str_nat n"

text \<open>\<open>str\<close> of a tuple of ints: \<open>()\<close>, \<open>(3,)\<close>, \<open>(64, 64, 3)\<close>.\<close>

fun join_comma :: "string list \<Rightarrow> string" where
  "join_comma [] = []"
| "join_comma [s] = s"
| "join_comma (s # t # ss) = s @ '', '' @ join_comma (t # ss)"

definition str_tuple :: "nat list \<Rightarrow> string" where
  "str_tuple t = (case t of [] \<Rightarrow> ''()''
     | [n] \<Rightarrow> ''('' @ str_nat n @ '',)''
     | _ \<Rightarrow> ''('' @ join_comma (map str_nat t) @ '')'')"

text \<open>
  \<open>os.path.join(a, b)\<close> for a relative \<open>b\<close>: \<open>b\<close> alone when \<open>a\<close> is empty, no second
  separator when \<open>a\<close> ends with one.
\<close>

definition path_join :: "string \<Rightarrow> string \<Rightarrow> string" where
  "path_join a b = (if a = [] then b else if last a = CHR ''/'' then a @ b else a @ ''/'' @ b)"

section \<open>Single-precision arithmetic\<close>

text \<open>
  numpy computes on \<open>float32\<close> arrays: every arithmetic result is rounded to the nearest
  number with a 24-bit significand, ties to the even one. \<open>float32 x\<close> is that rounding
  of the exact result \<open>x\<close>: the exponent is the largest \<open>e\<close> in \<open>[-126, 127]\<close> with
  \<open>2 ^ e \<le> |x|\<close> (\<open>-126\<close> below the normal range), and \<open>x\<close> is rounded to a multiple of
  \<open>2 ^ (e - 23)\<close>. Results beyond the largest finite \<open>float32\<close> (infinities) are outside
  the model.
\<close>

definition round_half_even :: "real \<Rightarrow> int" where
  "round_half_even y =
     (if y - of_int \<lfloor>y\<rfloor> < 1 / 2 then \<lfloor>y\<rfloor>
      else if 1 / 2 < y - of_int \<lfloor>y\<rfloor> then \<lfloor>y\<rfloor> + 1
      else if even \<lfloor>y\<rfloor> then \<lfloor>y\<rfloor> else \<lfloor>y\<rfloor> + 1)"

fun exponent_search :: "real \<Rightarrow> int \<Rightarrow> nat \<Rightarrow> int" where
  "exponent_search a k 0 = k"
| "exponent_search a k (Suc n) = (if 2 powi k \<le> a then k else exponent_search a (k - 1) n)"

definition float32_exponent :: "real \<Rightarrow> int" where
  "float32_exponent x = exponent_search \<bar>x\<bar> 127 253"

definition float32 :: "real \<Rightarrow> real" where
  "float32 x =
     of_int (round_half_even (x / 2 powi (float32_exponent x - 23))) * 2 powi (float32_exponent x - 23)"

section \<open>Loading the training images\<close>

text \<open>
  The directory is the list of the files that \<open>glob\<close> returns, each with the array that
  \<open>array(Image.open(f))\<close> gives. What \<open>print\<close> writes is returned with the result.
\<close>

type_synonym directory = "(string \<times> uint8 ndarray) list"

definition bad_shape_msg :: "string \<Rightarrow> nat list \<Rightarrow> string" where
  "bad_shape_msg f s = ''bad shape for '' @ f @ '': '' @ str_tuple s"

text \<open>
  \<open>(img.astype(float32) - 127.5) / 127.5\<close>, element by element: the byte is exact as a
  \<open>float32\<close>, the subtraction and the division each round.
\<close>

definition normalize_px :: "uint8 \<Rightarrow> real" where
  "normalize_px p = float32 (float32 (real (unat p) - 127.5) / 127.5)"

definition normalize_img :: "uint8 ndarray \<Rightarrow> real ndarray" where
  "normalize_img img = \<lparr> shape = shape img, elems = map normalize_px (elems img) \<rparr>"

text \<open>
  \<open>DCGAN.load_images\<close>: the loop over the files, with the list \<open>xs\<close> and the printed
  lines as its state.
\<close>

fun dcgan_load_loop ::
  "nat list \<Rightarrow> directory \<Rightarrow> real ndarray list \<times> string list \<Rightarrow> real ndarray list \<times> string list" where
  "dcgan_load_loop sh [] (xs, out) = (xs, out)"
| "dcgan_load_loop sh ((f, img) # fs) (xs, out) =
     (if shape img = sh
      then dcgan_load_loop sh fs (xs @ [normalize_img img], out)
      else dcgan_load_loop sh fs (xs, out @ [bad_shape_msg f (shape img)]))"

definition dcgan_load_images :: "config \<Rightarrow> directory \<Rightarrow> real ndarray list \<times> string list" where
  "dcgan_load_images cfg dir = dcgan_load_loop (img_shape cfg) dir ([], [])"

text \<open>\<open>CYCLEGAN.load_images\<close>: the same loop, appending \<open>img\<close> itself.\<close>

fun cyclegan_load_loop ::
  "nat list \<Rightarrow> directory \<Rightarrow> uint8 ndarray list \<times> string list \<Rightarrow> uint8 ndarray list \<times> string list" where
  "cyclegan_load_loop sh [] (xs, out) = (xs, out)"
| "cyclegan_load_loop sh ((f, img) # fs) (xs, out) =
     (if shape img = sh
      then cyclegan_load_loop sh fs (xs @ [img], out)
      else cyclegan_load_loop sh fs (xs, out @ [bad_shape_msg f (shape img)]))"

definition cyclegan_load_images ::
  "cyc_config \<Rightarrow> directory \<Rightarrow> uint8 ndarray list \<times> string list" where
  "cyclegan_load_images cfg dir = cyclegan_load_loop (c_img_shape cfg) dir ([], [])"

section \<open>Saving: denormalization\<close>

text \<open>
  \<open>astype(uint8)\<close> of a float drops the fraction (towards zero); the word keeps the low
  8 bits.
\<close>

definition astype_uint8 :: "real \<Rightarrow> uint8" where
  "astype_uint8 x = word_of_int (if 0 \<le> x then \<lfloor>x\<rfloor> else \<lceil>x\<rceil>)"

text \<open>
  \<open>(127.5 * imgs + 127.5).astype(uint8)\<close>, element by element, on the \<open>float32\<close> array
  that \<open>predict\<close> returns: the product and the sum each round.
\<close>

definition denormalize_px :: "real \<Rightarrow> uint8" where
  "denormalize_px x = astype_uint8 (float32 (float32 (127.5 * x) + 127.5))"

section \<open>Layers and their output shapes\<close>

text \<open>
  The Keras layers that the two scripts add, with the arguments the scripts pass
  (\<open>strides\<close> defaults to 1, \<open>padding\<close> to \<open>valid\<close>, \<open>activation\<close> to none).
  Shapes leave the batch axis out: an image batch has shape \<open>[h, w, c]\<close>.
\<close>

datatype padding = Valid | Same

datatype activation = Linear | Relu | Tanh | Sigmoid

datatype layer =
    Reshape "nat list"
  | Conv2D nat nat nat padding activation
  | Conv2DTranspose nat nat nat padding activation
  | Activation activation
  | BatchNormalization
  | LeakyReLU real
  | MaxPooling2D nat
  | UpSampling2D nat
  | Flatten

text \<open>
  Keras's \<open>conv_output_length\<close> and \<open>deconv_length\<close>. A \<open>valid\<close> window larger than
  its input gives no output shape: the framework rejects the layer.
\<close>

definition conv_output_length :: "nat \<Rightarrow> nat \<Rightarrow> padding \<Rightarrow> nat \<Rightarrow> nat option" where
  "conv_output_length n k p s =
     (if s = 0 then None
      else case p of
          Same \<Rightarrow> Some ((n + s - 1) div s)
        | Valid \<Rightarrow> if n < k then None else Some ((n - k + 1 + s - 1) div s))"

definition deconv_length :: "nat \<Rightarrow> nat \<Rightarrow> nat \<Rightarrow> padding \<Rightarrow> nat" where
  "deconv_length n s k p = (case p of Valid \<Rightarrow> n * s + max (k - s) 0 | Same \<Rightarrow> n * s)"

fun compute_output_shape :: "layer \<Rightarrow> nat list \<Rightarrow> nat list option" where
  "compute_output_shape (Reshape t) sh = (if prod_list sh = prod_list t then Some t else None)"
| "compute_output_shape (Conv2D f k s p a) [h, w, c] =
     (case (conv_output_length h k p s, conv_output_length w k p s) of
        (Some h', Some w') \<Rightarrow> Some [h', w', f]
      | _ \<Rightarrow> None)"
| "compute_output_shape (Conv2D f k s p a) sh = None"
| "compute_output_shape (Conv2DTranspose f k s p a) [h, w, c] =
     Some [deconv_length h s k p, deconv_length w s k p, f]"
| "compute_output_shape (Conv2DTranspose f k s p a) sh = None"
| "compute_output_shape (Activation a) sh = Some sh"
| "compute_output_shape BatchNormalization sh = Some sh"
| "compute_output_shape (LeakyReLU al) sh = Some sh"
| "compute_output_shape (MaxPooling2D n) [h, w, c] =
     (case (conv_output_length h n Valid n, conv_output_length w n Valid n) of
        (Some h', Some w') \<Rightarrow> Some [h', w', c]
      | _ \<Rightarrow> None)"
| "compute_output_shape (MaxPooling2D n) sh = None"
| "compute_output_shape (UpSampling2D n) [h, w, c] = Some [h * n, w * n, c]"
| "compute_output_shape (UpSampling2D n) sh = None"
| "compute_output_shape Flatten sh = Some [prod_list sh]"

text \<open>A \<open>Sequential\<close> model: the input shape of its first layer and the layers added.\<close>

record sequential =
  input_shape :: "nat list"
  layers :: "layer list"

fun shape_through :: "layer list \<Rightarrow> nat list \<Rightarrow> nat list option" where
  "shape_through [] sh = Some sh"
| "shape_through (l # ls) sh =
     (case compute_output_shape l sh of None \<Rightarrow> None | Some sh' \<Rightarrow> shape_through ls sh')"

definition output_shape :: "sequential \<Rightarrow> nat list option" where
  "output_shape m = shape_through (layers m) (input_shape m)"

section \<open>The networks\<close>

text \<open>\<open>DCGAN.build_generator\<close> and \<open>DCGAN.build_discriminator\<close>, layer by layer.\<close>

definition build_generator :: "config \<Rightarrow> sequential" where
  "build_generator cfg = \<lparr> input_shape = [nz cfg], layers =
     [ Reshape [1, 1, nz cfg],
       Conv2DTranspose (ngf cfg * 8) 4 1 Valid Linear,
       Activation Relu,
       BatchNormalization,
       Conv2DTranspose (ngf cfg * 4) 4 2 Same Linear,
       Activation Relu,
       BatchNormalization,
       BatchNormalization,
       Conv2DTranspose (ngf cfg * 2) 4 2 Same Linear,
       Activation Relu,
       BatchNormalization,
       BatchNormalization,
       MaxPooling2D 4,
       UpSampling2D 4,
       Conv2DTranspose (ngf cfg) 4 2 Same Linear,
       Activation Relu,
       BatchNormalization,
       BatchNormalization,
       Conv2DTranspose (img_shape cfg ! 2) 4 2 Same Tanh ] \<rparr>"

definition build_discriminator :: "config \<Rightarrow> sequential" where
  "build_discriminator cfg = \<lparr> input_shape = img_shape cfg, layers =
     [ Conv2D (ndf cfg) 4 2 Same Linear,
       LeakyReLU (alpha cfg),
       BatchNormalization,
       Conv2D (ndf cfg * 2) 4 2 Same Linear,
       LeakyReLU (alpha cfg),
       BatchNormalization,
       Conv2D (ndf cfg * 4) 4 2 Same Linear,
       LeakyReLU (alpha cfg),
       BatchNormalization,
       MaxPooling2D 2,
       UpSampling2D 2,
       Conv2D (ndf cfg * 8) 4 2 Same Linear,
       LeakyReLU (alpha cfg),
       BatchNormalization,
       Conv2D 1 4 1 Valid Sigmoid,
       Flatten ] \<rparr>"

text \<open>\<open>CYCLEGAN.build_generator\<close> and \<open>CYCLEGAN.build_discriminator\<close>.\<close>

definition c_build_generator :: "cyc_config \<Rightarrow> sequential" where
  "c_build_generator cfg = \<lparr> input_shape = c_img_shape cfg, layers =
     [ Conv2D (c_ngf cfg) 4 1 Valid Linear,
       Activation Relu,
       BatchNormalization,
       Conv2D (c_ngf cfg * 4) 4 1 Valid Linear,
       Activation Relu,
       BatchNormalization,
       Conv2DTranspose (c_ngf cfg) 4 1 Valid Linear,
       Activation Relu,
       BatchNormalization,
       Conv2DTranspose (c_ngf cfg) 3 1 Valid Linear,
       Conv2DTranspose (c_img_shape cfg ! 2) 2 1 Valid Tanh ] \<rparr>"

definition c_build_discriminator :: "cyc_config \<Rightarrow> sequential" where
  "c_build_discriminator cfg = \<lparr> input_shape = c_img_shape cfg, layers =
     [ Conv2D (c_ndf cfg) 4 2 Same Linear,
       LeakyReLU (c_alpha cfg),
       Conv2D (c_ndf cfg) 4 2 Same Linear,
       LeakyReLU (c_alpha cfg),
       BatchNormalization,
       Conv2D (c_ndf cfg * 8) 4 2 Same Linear,
       LeakyReLU (c_alpha cfg),
       BatchNormalization,
       Conv2D 1 4 1 Valid Sigmoid,
       Flatten ] \<rparr>"

section \<open>What a network computes\<close>

text \<open>
  The values of a tensor are a flat list of reals. An activation works element by
  element. What a layer computes before its activation (the convolution with the
  layer's kernel and bias, the batch normalization, the pooling) is a parameter
  \<open>op\<close>: a function of the layer's position and its input, fixed by the weights.
\<close>

fun apply_activation :: "activation \<Rightarrow> real \<Rightarrow> real" where
  "apply_activation Linear x = x"
| "apply_activation Relu x = max 0 x"
| "apply_activation Tanh x = tanh x"
| "apply_activation Sigmoid x = 1 / (1 + exp (- x))"

fun call_layer :: "(nat \<Rightarrow> real list \<Rightarrow> real list) \<Rightarrow> nat \<Rightarrow> layer \<Rightarrow> real list \<Rightarrow> real list" where
  "call_layer op i (Reshape t) x = x"
| "call_layer op i (Conv2D f k s p a) x = map (apply_activation a) (op i x)"
| "call_layer op i (Conv2DTranspose f k s p a) x = map (apply_activation a) (op i x)"
| "call_layer op i (Activation a) x = map (apply_activation a) x"
| "call_layer op i BatchNormalization x = op i x"
| "call_layer op i (LeakyReLU al) x = map (\<lambda>v. if 0 \<le> v then v else al * v) x"
| "call_layer op i (MaxPooling2D n) x = op i x"
| "call_layer op i (UpSampling2D n) x = op i x"
| "call_layer op i Flatten x = x"

fun call_layers :: "(nat \<Rightarrow> real list \<Rightarrow> real list) \<Rightarrow> nat \<Rightarrow> layer list \<Rightarrow> real list \<Rightarrow> real list" where
  "call_layers op i [] x = x"
| "call_layers op i (l # ls) x = call_layers op (Suc i) ls (call_layer op i l x)"

definition call_sequential :: "(nat \<Rightarrow> real list \<Rightarrow> real list) \<Rightarrow> sequential \<Rightarrow> real list \<Rightarrow> real list" where
  "call_sequential op m x = call_layers op 0 (layers m) x"

section \<open>Models built from other models\<close>

text \<open>
  A symbolic Keras tensor is an \<open>Input\<close> or a network called on a tensor;
  \<open>Model(x, t)\<close> is the function from the input \<open>x\<close> to \<open>t\<close>. The networks of a script
  are named by a type \<open>'n\<close>.
\<close>

datatype 'n tensor_expr = Input string | Call 'n "'n tensor_expr"

record 'n model =
  m_input :: string
  m_output :: "'n tensor_expr"

fun nets_of :: "'n tensor_expr \<Rightarrow> 'n list" where
  "nets_of (Input x) = []"
| "nets_of (Call n t) = nets_of t @ [n]"

fun inputs_of :: "'n tensor_expr \<Rightarrow> string list" where
  "inputs_of (Input x) = [x]"
| "inputs_of (Call n t) = inputs_of t"

text \<open>The value of a symbolic tensor when its input is fed \<open>v\<close> and network \<open>n\<close> computes \<open>f n\<close>.\<close>

fun eval_expr :: "('n \<Rightarrow> 'v \<Rightarrow> 'v) \<Rightarrow> 'v \<Rightarrow> 'n tensor_expr \<Rightarrow> 'v" where
  "eval_expr f v (Input x) = v"
| "eval_expr f v (Call n t) = f n (eval_expr f v t)"

definition call_model :: "('n \<Rightarrow> 'v \<Rightarrow> 'v) \<Rightarrow> 'n model \<Rightarrow> 'v \<Rightarrow> 'v" where
  "call_model f m v = eval_expr f v (m_output m)"

text \<open>
  \<open>compile\<close> fixes what an optimizer step may change: the networks of the model whose
  \<open>trainable\<close> flag is set when \<open>compile\<close> runs. Setting the flag afterwards does not
  change a model compiled before.
\<close>

datatype loss = Binary_crossentropy | Mean_absolute_error

record 'n compiled =
  c_model :: "'n model"
  c_loss :: loss
  c_metrics :: "string list"
  c_trainable :: "'n list"

definition compile :: "'n model \<Rightarrow> loss \<Rightarrow> string list \<Rightarrow> ('n \<Rightarrow> bool) \<Rightarrow> 'n compiled" where
  "compile m l ms trainable =
     \<lparr> c_model = m, c_loss = l, c_metrics = ms,
       c_trainable = filter trainable (nets_of (m_output m)) \<rparr>"

text \<open>
  What the framework computes is a parameter: \<open>layer_op w i\<close> is what layer \<open>i\<close> of a
  network with weights \<open>w\<close> computes before its activation, \<open>optimizer_step\<close> gives the new
  weights of a network after one Adam step on a batch, \<open>loss_values\<close> the numbers that
  \<open>train_on_batch\<close> returns.
\<close>

record ('n, 'w) keras =
  layer_op :: "'w \<Rightarrow> nat \<Rightarrow> real list \<Rightarrow> real list"
  optimizer_step :: "'n compiled \<Rightarrow> ('n \<Rightarrow> 'w) \<Rightarrow> real list list \<Rightarrow> real list list \<Rightarrow> 'n \<Rightarrow> 'w"
  loss_values :: "'n compiled \<Rightarrow> ('n \<Rightarrow> 'w) \<Rightarrow> real list list \<Rightarrow> real list list \<Rightarrow> real list"

text \<open>What the program does that can be observed, in order.\<close>

datatype pixels = Uint8 "uint8 list" | Float "real list"

record grid =
  canvas :: "nat \<times> nat"
  pastes :: "((nat \<times> nat) \<times> pixels) list"

datatype 'n event =
    TrainOnBatch "'n compiled" "real list list" "real list list"
  | Printed string
  | PrintedLosses nat "real list" "real list"
  | Saved string grid

record ('n, 'w) state =
  weights :: "'n \<Rightarrow> 'w"
  trace :: "'n event list"

definition net_fn :: "('n, 'w) keras \<Rightarrow> ('n \<Rightarrow> sequential) \<Rightarrow> ('n \<Rightarrow> 'w) \<Rightarrow> 'n \<Rightarrow> real list \<Rightarrow> real list" where
  "net_fn K archs W n = call_sequential (layer_op K (W n)) (archs n)"

definition predict ::
  "('n, 'w) keras \<Rightarrow> ('n \<Rightarrow> sequential) \<Rightarrow> ('n \<Rightarrow> 'w) \<Rightarrow> 'n model \<Rightarrow> real list list \<Rightarrow> real list list" where
  "predict K archs W m batch = map (call_model (net_fn K archs W) m) batch"

definition train_on_batch ::
  "('n, 'w) keras \<Rightarrow> 'n compiled \<Rightarrow> real list list \<Rightarrow> real list list \<Rightarrow> ('n, 'w) state
     \<Rightarrow> real list \<times> ('n, 'w) state" where
  "train_on_batch K c xs ys st =
     (loss_values K c (weights st) xs ys,
      st\<lparr> weights := (\<lambda>n. if n \<in> set (c_trainable c)
                            then optimizer_step K c (weights st) xs ys n
                            else weights st n),
          trace := trace st @ [TrainOnBatch c xs ys] \<rparr>)"

section \<open>numpy\<close>

text \<open>
  The random source is a parameter: \<open>draw k i\<close> and \<open>gauss k i j\<close> are the numbers that
  the call numbered \<open>k\<close> (epoch and position in the loop body) produces.
  \<open>randint(low, high, n)\<close> raises when the range is empty and maps its draws into
  \<open>[low, high)\<close> otherwise (numpy from 1.17 on returns an empty array for \<open>n = 0\<close>
  before it looks at the range; nothing below depends on that case);
  \<open>normal(0, 1, (rows, cols))\<close> is a matrix of that shape.
\<close>

record rng =
  draw :: "nat \<times> nat \<Rightarrow> nat \<Rightarrow> nat"
  gauss :: "nat \<times> nat \<Rightarrow> nat \<Rightarrow> nat \<Rightarrow> real"

definition randint :: "rng \<Rightarrow> nat \<times> nat \<Rightarrow> nat \<Rightarrow> nat \<Rightarrow> nat \<Rightarrow> py_error + nat list" where
  "randint r k low high n =
     (if high \<le> low then Inl (ValueError ''low >= high'')
      else Inr (map (\<lambda>i. low + draw r k i mod (high - low)) [0..<n]))"

definition normal :: "rng \<Rightarrow> nat \<times> nat \<Rightarrow> nat \<Rightarrow> nat \<Rightarrow> real list list" where
  "normal r k rows cols = map (\<lambda>i. map (gauss r k i) [0..<cols]) [0..<rows]"

definition ones :: "nat \<Rightarrow> real list list" where
  "ones rows = replicate rows [1]"

definition zeros :: "nat \<Rightarrow> real list list" where
  "zeros rows = replicate rows [0]"

text \<open>\<open>x_train[idxs]\<close>; the indices that \<open>randint(0, x_train.shape[0], n)\<close> returns are rows.\<close>

definition take_rows :: "'a list \<Rightarrow> nat list \<Rightarrow> 'a list" where
  "take_rows xs idxs = map (\<lambda>i. xs ! i) idxs"

section \<open>The DCGAN script\<close>

datatype dnet = Gen | Discr

record dcgan =
  self_img_shape :: "nat list"
  self_nz :: nat
  self_ngf :: nat
  self_ndf :: nat
  self_alpha :: real
  self_src_path :: string
  self_otp_path :: string
  self_archs :: "dnet \<Rightarrow> sequential"
  self_discr :: "dnet compiled"
  self_trainable :: "dnet \<Rightarrow> bool"
  self_gen :: "dnet model"
  self_comb :: "dnet compiled"

text \<open>
  \<open>DCGAN.__init__\<close>, statement by statement: the discriminator is compiled while it is
  trainable, then its flag is cleared, then the generator is built and \<open>comb\<close> is
  compiled.
\<close>

definition dcgan_init :: "config \<Rightarrow> dcgan" where
  "dcgan_init cfg =
     (let trainable0 = (\<lambda>n. True);
          discr = \<lparr> m_input = ''input'', m_output = Call Discr (Input ''input'') \<rparr>;
          discr_compiled = compile discr Binary_crossentropy [''accuracy''] trainable0;
          trainable1 = trainable0(Discr := False);
          gen = \<lparr> m_input = ''input'', m_output = Call Gen (Input ''input'') \<rparr>;
          comb = \<lparr> m_input = ''z'', m_output = Call Discr (Call Gen (Input ''z'')) \<rparr>;
          comb_compiled = compile comb Binary_crossentropy [] trainable1
      in \<lparr> self_img_shape = img_shape cfg, self_nz = nz cfg,
           self_ngf = ngf cfg, self_ndf = ndf cfg, self_alpha = alpha cfg,
           self_src_path = src_path cfg, self_otp_path = otp_path cfg,
           self_archs = (\<lambda>n. case n of Gen \<Rightarrow> build_generator cfg | Discr \<Rightarrow> build_discriminator cfg),
           self_discr = discr_compiled, self_trainable = trainable1,
           self_gen = gen, self_comb = comb_compiled \<rparr>)"

text \<open>\<open>DCGAN.save_images(epoch)\<close> with the default \<open>n = (5, 5)\<close>.\<close>

definition dcgan_save_path :: "dcgan \<Rightarrow> nat \<Rightarrow> string" where
  "dcgan_save_path self epoch = path_join (self_otp_path self) (''dcgan_'' @ fmt_04i epoch @ ''.png'')"

definition dcgan_save_images ::
  "(dnet, 'w) keras \<Rightarrow> rng \<Rightarrow> dcgan \<Rightarrow> nat \<Rightarrow> (dnet, 'w) state \<Rightarrow> (dnet, 'w) state" where
  "dcgan_save_images K r self epoch st =
     (let n0 = 5; n1 = 5;
          imgs = predict K (self_archs self) (weights st) (self_gen self)
                   (normal r (epoch, 3) (n0 * n1) (self_nz self));
          imgs = map (map denormalize_px) imgs;
          s0 = self_img_shape self ! 0 + 2;
          s1 = self_img_shape self ! 1 + 2;
          out = \<lparr> canvas = (2 + n0 * s0, 2 + n1 * s1),
                  pastes = concat (map (\<lambda>i. map (\<lambda>j. ((2 + s0 * i, 2 + s1 * j), Uint8 (imgs ! (n1 * i + j))))
                                               [0..<n1]) [0..<n0]) \<rparr>
      in st\<lparr> trace := trace st @ [Saved (dcgan_save_path self epoch) out] \<rparr>)"

text \<open>
  One pass of the loop body of \<open>DCGAN.train\<close>. An exception ends the pass; the state
  reached is returned with it.
\<close>

definition dcgan_iteration ::
  "(dnet, 'w) keras \<Rightarrow> rng \<Rightarrow> dcgan \<Rightarrow> real ndarray list \<Rightarrow> nat \<Rightarrow> int \<Rightarrow> nat \<Rightarrow> (dnet, 'w) state
     \<Rightarrow> py_error \<times> (dnet, 'w) state + (dnet, 'w) state" where
  "dcgan_iteration K r self x_train half_batch save_interval epoch st =
     (case randint r (epoch, 0) 0 (length x_train) half_batch of
        Inl e \<Rightarrow> Inl (e, st)
      | Inr idxs \<Rightarrow>
          (let real_imgs = map elems (take_rows x_train idxs);
               fake_imgs = predict K (self_archs self) (weights st) (self_gen self)
                             (normal r (epoch, 1) half_batch (self_nz self));
               (d_loss_r, st1) = train_on_batch K (self_discr self) real_imgs (ones half_batch) st;
               (d_loss_f, st2) = train_on_batch K (self_discr self) fake_imgs (zeros half_batch) st1;
               d_loss = map (\<lambda>(a, b). float32 (0.5 * float32 (a + b))) (zip d_loss_r d_loss_f);
               z = normal r (epoch, 2) (2 * half_batch) (self_nz self);
               (g_loss, st3) = train_on_batch K (self_comb self) z (ones (2 * half_batch)) st2;
               st4 = st3\<lparr> trace := trace st3 @ [PrintedLosses epoch d_loss g_loss] \<rparr>
           in if save_interval = 0 then Inl (ZeroDivisionError, st4)
              else if int epoch mod save_interval = 0 then Inr (dcgan_save_images K r self epoch st4)
              else Inr st4))"

fun dcgan_loop ::
  "(dnet, 'w) keras \<Rightarrow> rng \<Rightarrow> dcgan \<Rightarrow> real ndarray list \<Rightarrow> nat \<Rightarrow> int \<Rightarrow> nat list \<Rightarrow> (dnet, 'w) state
     \<Rightarrow> py_error \<times> (dnet, 'w) state + (dnet, 'w) state" where
  "dcgan_loop K r self x_train half_batch save_interval [] st = Inr st"
| "dcgan_loop K r self x_train half_batch save_interval (epoch # epochs) st =
     (case dcgan_iteration K r self x_train half_batch save_interval epoch st of
        Inl err \<Rightarrow> Inl err
      | Inr st' \<Rightarrow> dcgan_loop K r self x_train half_batch save_interval epochs st')"

text \<open>
  \<open>DCGAN.train(epochs, half_batch, save_interval)\<close> on an instance built from \<open>cfg\<close>, in
  a directory \<open>dir\<close>, from the state \<open>st\<close>; \<open>range(epochs)\<close> is empty for \<open>epochs \<le> 0\<close>.
\<close>

definition dcgan_train ::
  "(dnet, 'w) keras \<Rightarrow> rng \<Rightarrow> config \<Rightarrow> directory \<Rightarrow> int \<Rightarrow> nat \<Rightarrow> int \<Rightarrow> (dnet, 'w) state
     \<Rightarrow> py_error \<times> (dnet, 'w) state + (dnet, 'w) state" where
  "dcgan_train K r cfg dir epochs half_batch save_interval st =
     (let (x_train, out) = dcgan_load_images cfg dir
      in dcgan_loop K r (dcgan_init cfg) x_train half_batch save_interval [0..<nat epochs]
           (st\<lparr> trace := trace st @ map Printed out \<rparr>))"

section \<open>The CycleGAN script\<close>

datatype cnet = Gen1 | Gen2 | Discr1 | Discr2

text \<open>
  The attributes of a \<open>CYCLEGAN\<close> instance are the names that \<open>__init__\<close> binds, in its
  order, followed by the methods of the class. Reading any other name raises
  \<open>AttributeError\<close>.
\<close>

datatype pyval =
    IntV nat
  | FloatV real
  | TupleV "nat list"
  | ModelV "cnet model"
  | CompiledV "cnet compiled"
  | TensorV "cnet tensor_expr"
  | MethodV

definition cyclegan_init :: "cyc_config \<Rightarrow> (string \<times> pyval) list" where
  "cyclegan_init cfg =
     (let trainable0 = (\<lambda>n. True);
          discr1 = \<lparr> m_input = ''input'', m_output = Call Discr1 (Input ''input'') \<rparr>;
          discr1_compiled = compile discr1 Binary_crossentropy [''accuracy''] trainable0;
          trainable1 = trainable0(Discr1 := False);
          discr2 = \<lparr> m_input = ''input'', m_output = Call Discr2 (Input ''input'') \<rparr>;
          discr2_compiled = compile discr2 Binary_crossentropy [''accuracy''] trainable1;
          trainable2 = trainable1(Discr2 := False);
          gen1 = \<lparr> m_input = ''input'', m_output = Call Gen1 (Input ''input'') \<rparr>;
          gen2 = \<lparr> m_input = ''input'', m_output = Call Gen2 (Input ''input'') \<rparr>;
          first_gen = Call Discr1 (Call Gen1 (Input ''x''));
          second_gen = Call Discr2 (Call Gen2 (Input ''y''));
          comb1 = \<lparr> m_input = ''x'', m_output = first_gen \<rparr>;
          comb2 = \<lparr> m_input = ''y'', m_output = second_gen \<rparr>;
          comb = \<lparr> m_input = ''x'', m_output = Call Gen2 (Call Gen1 (Input ''x'')) \<rparr>;
          comb_compiled = compile comb Mean_absolute_error [] trainable2
      in [ (''img_shape'', TupleV (c_img_shape cfg)),
           (''nx'', IntV (c_nx cfg)),
           (''ny'', IntV (c_ny cfg)),
           (''ngf'', IntV (c_ngf cfg)),
           (''ndf'', IntV (c_ndf cfg)),
           (''alpha'', FloatV (c_alpha cfg)),
           (''nc'', IntV (c_nc cfg)),
           (''discr1'', CompiledV discr1_compiled),
           (''discr2'', CompiledV discr2_compiled),
           (''gen1'', ModelV gen1),
           (''gen2'', ModelV gen2),
           (''first_gen'', TensorV first_gen),
           (''second_gen'', TensorV second_gen),
           (''comb1'', ModelV comb1),
           (''comb2'', ModelV comb2),
           (''comb'', CompiledV comb_compiled),
           (''train'', MethodV),
           (''load_images'', MethodV),
           (''save_images'', MethodV),
           (''build_generator'', MethodV),
           (''build_discriminator'', MethodV) ])"

definition cyclegan_archs :: "cyc_config \<Rightarrow> cnet \<Rightarrow> sequential" where
  "cyclegan_archs cfg n =
     (case n of Gen1 \<Rightarrow> c_build_generator cfg | Gen2 \<Rightarrow> c_build_generator cfg
      | Discr1 \<Rightarrow> c_build_discriminator cfg | Discr2 \<Rightarrow> c_build_discriminator cfg)"

definition getattr :: "(string \<times> pyval) list \<Rightarrow> string \<Rightarrow> py_error + pyval" where
  "getattr self name = (case map_of self name of None \<Rightarrow> Inl (AttributeError name) | Some v \<Rightarrow> Inr v)"

text \<open>The literal that \<open>CYCLEGAN.save_images\<close> passes to \<open>out.save\<close>, whatever the epoch.\<close>

definition cyclegan_save_path :: "nat \<Rightarrow> string" where
  "cyclegan_save_path epoch = ''output/dcgan_%04i.png''"

text \<open>
  \<open>CYCLEGAN.save_images(epoch)\<close>: \<open>self.gen\<close> is read first, then \<open>self.nz\<close> while the
  argument of \<open>predict\<close> is built. The images are pasted as \<open>predict\<close> returns them.
\<close>

definition cyclegan_save_images ::
  "(cnet, 'w) keras \<Rightarrow> rng \<Rightarrow> cyc_config \<Rightarrow> (string \<times> pyval) list \<Rightarrow> nat \<Rightarrow> (cnet, 'w) state
     \<Rightarrow> py_error \<times> (cnet, 'w) state + (cnet, 'w) state" where
  "cyclegan_save_images K r cfg self epoch st =
     (case getattr self ''gen'' of
        Inl e \<Rightarrow> Inl (e, st)
      | Inr gen_v \<Rightarrow>
     (case getattr self ''nz'' of
        Inl e \<Rightarrow> Inl (e, st)
      | Inr nz_v \<Rightarrow>
     (case (gen_v, nz_v) of
        (ModelV gen, IntV nz_n) \<Rightarrow>
          (let n0 = 5; n1 = 5;
               imgs = predict K (cyclegan_archs cfg) (weights st) gen (normal r (epoch, 3) (n0 * n1) nz_n);
               s0 = c_img_shape cfg ! 0 + 2;
               s1 = c_img_shape cfg ! 1 + 2;
               out = \<lparr> canvas = (2 + n0 * s0, 2 + n1 * s1),
                       pastes = concat (map (\<lambda>i. map (\<lambda>j. ((2 + s0 * i, 2 + s1 * j), Float (imgs ! (n1 * i + j))))
                                                    [0..<n1]) [0..<n0]) \<rparr>
           in Inr (st\<lparr> trace := trace st @ [Saved (cyclegan_save_path epoch) out] \<rparr>))
      | _ \<Rightarrow> Inl (TypeError ''predict'', st))))"

text \<open>
  One pass of the loop body of \<open>CYCLEGAN.train\<close>. \<open>train_on_batch\<close> of a model compiled
  with a metric returns a Python list, so \<open>.5*(d_loss_r + d_loss_f)\<close> multiplies a list
  by a float, which raises; the statements after it are never reached.
\<close>

definition cyclegan_iteration ::
  "(cnet, 'w) keras \<Rightarrow> rng \<Rightarrow> cyc_config \<Rightarrow> (string \<times> pyval) list \<Rightarrow> uint8 ndarray list \<Rightarrow> nat \<Rightarrow> int
     \<Rightarrow> nat \<Rightarrow> (cnet, 'w) state \<Rightarrow> py_error \<times> (cnet, 'w) state + (cnet, 'w) state" where
  "cyclegan_iteration K r cfg self x_train half_batch save_interval epoch st =
     (case randint r (epoch, 0) 0 (length x_train) half_batch of
        Inl e \<Rightarrow> Inl (e, st)
      | Inr idxs \<Rightarrow>
     (let real_imgs = map (\<lambda>img. map (\<lambda>p. real (unat p)) (elems img)) (take_rows x_train idxs) in
      case getattr self ''discr1'' of
        Inl e \<Rightarrow> Inl (e, st)
      | Inr (CompiledV discr1) \<Rightarrow>
         (let (d_loss_r, st1) = train_on_batch K discr1 real_imgs (ones half_batch) st in
          case getattr self ''nz'' of
            Inl e \<Rightarrow> Inl (e, st1)
          | Inr (IntV nz_n) \<Rightarrow>
             (let z = normal r (epoch, 1) half_batch nz_n in
              case getattr self ''gen1'' of
                Inl e \<Rightarrow> Inl (e, st1)
              | Inr (ModelV gen1) \<Rightarrow>
                 (let fake = predict K (cyclegan_archs cfg) (weights st1) gen1 z;
                      (d_loss_f, st2) = train_on_batch K discr1 fake (zeros half_batch) st1
                  in Inl (TypeError ''list * float'', st2))
              | Inr _ \<Rightarrow> Inl (AttributeError ''predict'', st1))
          | Inr _ \<Rightarrow> Inl (TypeError ''normal'', st1))
      | Inr _ \<Rightarrow> Inl (AttributeError ''train_on_batch'', st)))"

fun cyclegan_loop ::
  "(cnet, 'w) keras \<Rightarrow> rng \<Rightarrow> cyc_config \<Rightarrow> (string \<times> pyval) list \<Rightarrow> uint8 ndarray list \<Rightarrow> nat \<Rightarrow> int
     \<Rightarrow> nat list \<Rightarrow> (cnet, 'w) state \<Rightarrow> py_error \<times> (cnet, 'w) state + (cnet, 'w) state" where
  "cyclegan_loop K r cfg self x_train half_batch save_interval [] st = Inr st"
| "cyclegan_loop K r cfg self x_train half_batch save_interval (epoch # epochs) st =
     (case cyclegan_iteration K r cfg self x_train half_batch save_interval epoch st of
        Inl err \<Rightarrow> Inl err
      | Inr st' \<Rightarrow> cyclegan_loop K r cfg self x_train half_batch save_interval epochs st')"

definition cyclegan_train ::
  "(cnet, 'w) keras \<Rightarrow> rng \<Rightarrow> cyc_config \<Rightarrow> directory \<Rightarrow> int \<Rightarrow> nat \<Rightarrow> int \<Rightarrow> (cnet, 'w) state
     \<Rightarrow> py_error \<times> (cnet, 'w) state + (cnet, 'w) state" where
  "cyclegan_train K r cfg dir epochs half_batch save_interval st =
     (let (x_train, out) = cyclegan_load_images cfg dir
      in cyclegan_loop K r cfg (cyclegan_init cfg) x_train half_batch save_interval [0..<nat epochs]
           (st\<lparr> trace := trace st @ map Printed out \<rparr>))"

section \<open>Reading a run\<close>

text \<open>The state in which a run ended, returned or carried by the exception.\<close>

definition final_state :: "py_error \<times> ('n, 'w) state + ('n, 'w) state \<Rightarrow> ('n, 'w) state" where
  "final_state res = (case res of Inl (e, st) \<Rightarrow> st | Inr st \<Rightarrow> st)"

text \<open>The exception that ended a run, if one did.\<close>

definition raised :: "py_error \<times> ('n, 'w) state + ('n, 'w) state \<Rightarrow> py_error option" where
  "raised res = (case res of Inl (e, st) \<Rightarrow> Some e | Inr st \<Rightarrow> None)"

text \<open>The optimizer steps of a trace, in order: the compiled model and the labels of each.\<close>

fun fits :: "'n event list \<Rightarrow> ('n compiled \<times> real list list) list" where
  "fits [] = []"
| "fits (TrainOnBatch c xs ys # evs) = (c, ys) # fits evs"
| "fits (ev # evs) = fits evs"

text \<open>The names of the files written, in order.\<close>

fun saved_files :: "'n event list \<Rightarrow> string list" where
  "saved_files [] = []"
| "saved_files (Saved path out # evs) = path # saved_files evs"
| "saved_files (ev # evs) = saved_files evs"

text \<open>
  A framework, a random source and a starting state to run the scripts on: layers that
  pass their input on, an optimizer that counts its steps, draws that count up.
\<close>

definition example_keras :: "('n, nat) keras" where
  "example_keras = \<lparr> layer_op = (\<lambda>w i x. x),
                      optimizer_step = (\<lambda>c W xs ys n. Suc (W n)),
                      loss_values = (\<lambda>c W xs ys. [0, 1]) \<rparr>"

definition example_rng :: rng where
  "example_rng = \<lparr> draw = (\<lambda>k i. i), gauss = (\<lambda>k i j. 0) \<rparr>"

definition example_state :: "('n, nat) state" where
  "example_state = \<lparr> weights = (\<lambda>n. 0), trace = [] \<rparr>"

text \<open>The output shape of a CycleGAN network on an input shape, if the input has one.\<close>

definition cyclegan_shape_fn :: "cyc_config \<Rightarrow> cnet \<Rightarrow> nat list option \<Rightarrow> nat list option" where
  "cyclegan_shape_fn cfg n v =
     (case v of None \<Rightarrow> None | Some sh \<Rightarrow> shape_through (layers (cyclegan_archs cfg n)) sh)"

section \<open>Properties of single-precision rounding\<close>

lemma round_half_even_abs_le:
  assumes "\<bar>y\<bar> \<le> of_int N"
  shows "\<bar>round_half_even y\<bar> \<le> N"
proof -
  have "real_of_int (- N) \<le> y" using assms by (simp add: abs_le_iff)
  then have lo: "- N \<le> \<lfloor>y\<rfloor>" by (simp only: le_floor_iff)
  have "y < real_of_int N + 1" using assms by linarith
  then have hi: "\<lfloor>y\<rfloor> \<le> N" by (simp only: floor_le_iff)
  have up: "\<lfloor>y\<rfloor> + 1 \<le> N" if "of_int \<lfloor>y\<rfloor> < y"
  proof -
    have "of_int \<lfloor>y\<rfloor> < (of_int N :: real)" using that assms by linarith
    then show ?thesis by simp
  qed
  show ?thesis
    unfolding round_half_even_def using lo hi up by (auto simp: abs_le_iff)
qed

lemma round_half_even_of_int [simp]: "round_half_even (of_int k) = k"
  by (simp add: round_half_even_def)

lemma exponent_search_found:
  "2 powi e \<le> a \<Longrightarrow> a < 2 powi (e + 1) \<Longrightarrow> e \<le> k \<Longrightarrow> k - int n \<le> e \<Longrightarrow> exponent_search a k n = e"
proof (induction n arbitrary: k)
  case 0
  then show ?case by simp
next
  case (Suc n)
  show ?case
  proof (cases "k = e")
    case True
    with Suc.prems show ?thesis by simp
  next
    case False
    with Suc.prems have "e + 1 \<le> k" by simp
    then have "(2::real) powi (e + 1) \<le> 2 powi k" by (intro power_int_increasing) auto
    with Suc.prems have "\<not> 2 powi k \<le> a" by linarith
    moreover have "exponent_search a (k - 1) n = e"
      using Suc.prems False by (intro Suc.IH) auto
    ultimately show ?thesis by simp
  qed
qed

lemma exponent_search_small:
  "a < 2 powi (k - int n + 1) \<Longrightarrow> exponent_search a k n = k - int n"
proof (induction n arbitrary: k)
  case 0
  then show ?case by simp
next
  case (Suc n)
  have "(2::real) powi (k - int (Suc n) + 1) \<le> 2 powi k" by (intro power_int_increasing) auto
  with Suc.prems have "\<not> 2 powi k \<le> a" by linarith
  moreover have "exponent_search a (k - 1) n = k - 1 - int n"
    using Suc.prems by (intro Suc.IH) (simp add: algebra_simps)
  ultimately show ?case by simp
qed

lemma exponent_search_cases:
  "2 powi exponent_search a k n \<le> a \<or> exponent_search a k n = k - int n"
proof (induction n arbitrary: k)
  case 0
  show ?case by simp
next
  case (Suc n)
  from Suc [of "k - 1"] show ?case by (auto simp: algebra_simps)
qed

lemma float32_exponent_eq:
  "2 powi e \<le> \<bar>x\<bar> \<Longrightarrow> \<bar>x\<bar> < 2 powi (e + 1) \<Longrightarrow> - 126 \<le> e \<Longrightarrow> e \<le> 127 \<Longrightarrow> float32_exponent x = e"
  unfolding float32_exponent_def by (rule exponent_search_found) auto

lemma float32_exponent_subnormal:
  "\<bar>x\<bar> < 2 powi (- 125) \<Longrightarrow> \<not> 2 powi (-126) \<le> \<bar>x\<bar> \<Longrightarrow> float32_exponent x = - 126"
  unfolding float32_exponent_def using exponent_search_small [of "\<bar>x\<bar>" 127 253] by simp

lemma round_half_even_0 [simp]: "round_half_even 0 = 0"
  by (simp add: round_half_even_def)

lemma round_half_even_numeral [simp]: "round_half_even (numeral n) = numeral n"
  using round_half_even_of_int [of "numeral n"] by simp

lemma round_half_even_neg_numeral [simp]: "round_half_even (- numeral n) = - numeral n"
  using round_half_even_of_int [of "- numeral n"] by simp

lemma float32_0 [simp]: "float32 0 = 0"
  by (simp add: float32_def)

lemma float32_abs_le:
  assumes x: "\<bar>x\<bar> \<le> of_int n * 2 powi j"
    and n: "real_of_int n * 2 powi j < 2 powi (j + 24)"
    and j: "- 149 \<le> j"
  shows "\<bar>float32 x\<bar> \<le> of_int n * 2 powi j"
proof -
  define e where "e = float32_exponent x"
  define q :: real where "q = 2 powi (e - 23)"
  have qpos: "0 < q" by (simp add: q_def)
  have "2 powi e \<le> \<bar>x\<bar> \<or> e = - 126"
    using exponent_search_cases [of "\<bar>x\<bar>" 127 253] by (simp add: e_def float32_exponent_def)
  then have ej: "e - 23 \<le> j"
  proof
    assume "2 powi e \<le> \<bar>x\<bar>"
    with x n have "(2::real) powi e < 2 powi (j + 24)" by linarith
    then have "e < j + 24"
      by (metis linorder_not_less power_int_increasing one_le_numeral)
    then show ?thesis by simp
  next
    assume "e = - 126"
    with j show ?thesis by simp
  qed
  define d where "d = nat (j - (e - 23))"
  have pj: "(2::real) powi j = 2 ^ d * q"
  proof -
    have "j = int d + (e - 23)" using ej by (simp add: d_def)
    then have "(2::real) powi j = 2 powi (int d) * 2 powi (e - 23)"
      by (metis power_int_add zero_neq_numeral)
    then show ?thesis by (simp add: q_def)
  qed
  have "\<bar>x / q\<bar> \<le> of_int (n * 2 ^ d)"
    using x qpos by (simp add: pj field_simps)
  then have "\<bar>round_half_even (x / q)\<bar> \<le> n * 2 ^ d" by (rule round_half_even_abs_le)
  then have "\<bar>real_of_int (round_half_even (x / q))\<bar> \<le> of_int (n * 2 ^ d)"
    by (metis of_int_abs of_int_le_iff)
  then have "\<bar>real_of_int (round_half_even (x / q))\<bar> * q \<le> of_int (n * 2 ^ d) * q"
    using qpos by (simp add: mult_right_mono)
  moreover have "\<bar>float32 x\<bar> = \<bar>real_of_int (round_half_even (x / q))\<bar> * q"
    using qpos by (simp add: float32_def e_def q_def abs_mult)
  ultimately show ?thesis by (simp add: pj mult.assoc)
qed

lemma float32_eval:
  "2 powi e \<le> \<bar>x\<bar> \<Longrightarrow> \<bar>x\<bar> < 2 powi (e + 1) \<Longrightarrow> - 126 \<le> e \<Longrightarrow> e \<le> 127 \<Longrightarrow>
     float32 x = of_int (round_half_even (x / 2 powi (e - 23))) * 2 powi (e - 23)"
  by (simp add: float32_def float32_exponent_eq)

lemma float32_neg_127_5: "float32 (- 127.5) = - 127.5"
  by (subst float32_eval [where e = 6]) simp_all

lemma float32_127_5: "float32 127.5 = 127.5"
  by (subst float32_eval [where e = 6]) simp_all

lemma float32_255: "float32 255 = 255"
  by (subst float32_eval [where e = 7]) simp_all

lemma float32_1: "float32 1 = 1"
  by (subst float32_eval [where e = 0]) simp_all

lemma float32_neg_1: "float32 (- 1) = - 1"
  by (subst float32_eval [where e = 0]) simp_all

lemma float32_neg_126_5: "float32 (- 126.5) = - 126.5"
  by (subst float32_eval [where e = 6]) simp_all

lemma float32_neg_253_255: "float32 (- 253 / 255) = - 8322815 / 8388608"
  by (subst float32_eval [where e = "- 1"]) (simp_all add: round_half_even_def)

lemma normalize_px_0: "normalize_px 0 = - 1"
proof -
  have "real (unat (0 :: uint8)) - 127.5 = - 127.5" by simp
  moreover have "- 127.5 / 127.5 = (- 1 :: real)" by simp
  ultimately show ?thesis unfolding normalize_px_def by (simp only: float32_neg_127_5 float32_neg_1)
qed

lemma normalize_px_1: "normalize_px 1 = - 8322815 / 8388608"
proof -
  have "real (unat (1 :: uint8)) - 127.5 = - 126.5" by simp
  moreover have "- 126.5 / 127.5 = (- 253 / 255 :: real)" by simp
  ultimately show ?thesis unfolding normalize_px_def by (simp only: float32_neg_126_5 float32_neg_253_255)
qed

lemma normalize_px_255: "normalize_px 255 = 1"
proof -
  have "real (unat (255 :: uint8)) - 127.5 = 127.5" by simp
  moreover have "127.5 / 127.5 = (1 :: real)" by simp
  ultimately show ?thesis unfolding normalize_px_def by (simp only: float32_127_5 float32_1)
qed

lemma denormalize_px_neg_1: "denormalize_px (- 1) = 0"
proof -
  have "127.5 * (- 1) = (- 127.5 :: real)" by simp
  moreover have "- 127.5 + 127.5 = (0 :: real)" by simp
  ultimately have "float32 (float32 (127.5 * (- 1)) + 127.5) = 0"
    by (simp only: float32_neg_127_5 float32_0)
  then show ?thesis by (simp add: denormalize_px_def astype_uint8_def)
qed

lemma denormalize_px_1: "denormalize_px 1 = 255"
proof -
  have "127.5 * 1 = (127.5 :: real)" by simp
  moreover have "127.5 + 127.5 = (255 :: real)" by simp
  ultimately have "float32 (float32 (127.5 * 1) + 127.5) = 255"
    by (simp only: float32_127_5 float32_255)
  then show ?thesis by (simp add: denormalize_px_def astype_uint8_def)
qed

section \<open>Properties of loading\<close>

lemma dcgan_load_loop_eq:
  "dcgan_load_loop sh dir (xs, out) =
     (xs @ map (\<lambda>(f, img). normalize_img img) (filter (\<lambda>(f, img). shape img = sh) dir),
      out @ map (\<lambda>(f, img). bad_shape_msg f (shape img)) (filter (\<lambda>(f, img). shape img \<noteq> sh) dir))"
  by (induction dir arbitrary: xs out) auto

lemma cyclegan_load_loop_eq:
  "cyclegan_load_loop sh dir (xs, out) =
     (xs @ map snd (filter (\<lambda>(f, img). shape img = sh) dir),
      out @ map (\<lambda>(f, img). bad_shape_msg f (shape img)) (filter (\<lambda>(f, img). shape img \<noteq> sh) dir))"
  by (induction dir arbitrary: xs out) auto

text \<open>
  Claim C1. For every directory, \<open>load_images\<close> returns exactly the images whose shape
  equals the configured image shape, in the order of the files (normalized in the DCGAN,
  as they are in the CycleGAN), and prints one \<open>bad shape\<close> line for each other image;
  it is a total function of the directory, so no image makes it raise.
\<close>

theorem load_images_keeps_matching_shapes:
  "dcgan_load_images cfg dir =
     (map (\<lambda>(f, img). normalize_img img) (filter (\<lambda>(f, img). shape img = img_shape cfg) dir),
      map (\<lambda>(f, img). bad_shape_msg f (shape img)) (filter (\<lambda>(f, img). shape img \<noteq> img_shape cfg) dir))
   \<and> cyclegan_load_images ccfg dir =
     (map snd (filter (\<lambda>(f, img). shape img = c_img_shape ccfg) dir),
      map (\<lambda>(f, img). bad_shape_msg f (shape img)) (filter (\<lambda>(f, img). shape img \<noteq> c_img_shape ccfg) dir))"
  by (simp add: dcgan_load_images_def cyclegan_load_images_def dcgan_load_loop_eq cyclegan_load_loop_eq)

text \<open>
  Claim C4. Denormalization sends the normalization boundaries to the ends of the 8-bit
  range: \<open>-1\<close> to \<open>0\<close> and \<open>1\<close> to \<open>255\<close>; and the normalized values of the raw pixels
  \<open>0\<close> and \<open>255\<close> are these boundaries, so both ends round-trip.
\<close>

theorem denormalize_boundaries:
  "denormalize_px (-1) = 0 \<and> denormalize_px 1 = 255
   \<and> normalize_px 0 = -1 \<and> normalize_px 255 = 1
   \<and> denormalize_px (normalize_px 0) = 0 \<and> denormalize_px (normalize_px 255) = 255"
  by (simp add: denormalize_px_neg_1 denormalize_px_1 normalize_px_0 normalize_px_255)

lemma normalize_px_range: "- 1 \<le> normalize_px p \<and> normalize_px p \<le> 1"
proof -
  have "unat p < 2 ^ LENGTH(8)" by (rule unsigned_less)
  then have "unat p \<le> 255" by simp
  then have "real (unat p) \<le> 255" by linarith
  moreover have "0 \<le> real (unat p)" by (rule of_nat_0_le_iff)
  ultimately have "\<bar>real (unat p) - 127.5\<bar> \<le> 127.5" by linarith
  moreover have "(127.5 :: real) = real_of_int 255 * 2 powi (- 1)" by simp
  ultimately have "\<bar>real (unat p) - 127.5\<bar> \<le> real_of_int 255 * 2 powi (- 1)"
    by (simp only:)
  then have "\<bar>float32 (real (unat p) - 127.5)\<bar> \<le> real_of_int 255 * 2 powi (- 1)"
    by (rule float32_abs_le) simp_all
  then have "\<bar>float32 (real (unat p) - 127.5) / 127.5\<bar> \<le> real_of_int 1 * 2 powi 0"
    by simp
  then have "\<bar>float32 (float32 (real (unat p) - 127.5) / 127.5)\<bar> \<le> real_of_int 1 * 2 powi 0"
    by (rule float32_abs_le) simp_all
  then show ?thesis by (simp add: normalize_px_def abs_le_iff del: of_nat_unat)
qed

text \<open>
  Claim C3 (as amended). Every pixel value in the training array that
  \<open>DCGAN.load_images\<close> returns is a floating-point number in \<open>[-1, 1]\<close>: for every loaded
  image whose shape matches the configured shape the stored tensor is the raw 8-bit
  tensor normalized by \<open>(img.astype(float32) - 127.5) / 127.5\<close>. \<open>CYCLEGAN.load_images\<close>
  stores the raw arrays of the matching images, unchanged.
\<close>

theorem dcgan_training_pixels_normalized:
  "list_all (\<lambda>img. list_all (\<lambda>v. - 1 \<le> v \<and> v \<le> 1) (elems img)) (fst (dcgan_load_images cfg dir))
   \<and> fst (dcgan_load_images cfg dir) =
       map (\<lambda>(f, img). normalize_img img) (filter (\<lambda>(f, img). shape img = img_shape cfg) dir)
   \<and> fst (cyclegan_load_images ccfg dir) = map snd (filter (\<lambda>(f, img). shape img = c_img_shape ccfg) dir)"
proof -
  have "list_all (\<lambda>img. list_all (\<lambda>v. - 1 \<le> v \<and> v \<le> 1) (elems img)) (fst (dcgan_load_images cfg dir))"
    using normalize_px_range
    by (auto simp: dcgan_load_images_def dcgan_load_loop_eq list_all_iff normalize_img_def)
  then show ?thesis
    by (simp add: dcgan_load_images_def cyclegan_load_images_def dcgan_load_loop_eq cyclegan_load_loop_eq)
qed

theorem dcgan_training_pixels_normalized_witness:
  "list_all (\<lambda>img. list_all (\<lambda>v. - 1 \<le> v \<and> v \<le> 1) (elems img))
     (fst (dcgan_load_images DCGAN_CONFIG
        [(''../input/hands_64/a.jpg'', \<lparr> shape = [64, 64, 3], elems = 1 # replicate 12287 255 \<rparr>)]))
   \<and> fst (dcgan_load_images DCGAN_CONFIG
        [(''../input/hands_64/a.jpg'', \<lparr> shape = [64, 64, 3], elems = 1 # replicate 12287 255 \<rparr>)]) =
       [\<lparr> shape = [64, 64, 3], elems = (- 8322815 / 8388608) # replicate 12287 1 \<rparr>]"
proof -
  let ?dir = "[(''../input/hands_64/a.jpg'', \<lparr> shape = [64, 64, 3], elems = (1 :: uint8) # replicate 12287 255 \<rparr>)]"
  have a: "list_all (\<lambda>img. list_all (\<lambda>v. - 1 \<le> v \<and> v \<le> 1) (elems img))
             (fst (dcgan_load_images DCGAN_CONFIG ?dir))"
    using dcgan_training_pixels_normalized [of DCGAN_CONFIG ?dir] by (rule conjunct1)
  have b: "fst (dcgan_load_images DCGAN_CONFIG ?dir) =
             [\<lparr> shape = [64, 64, 3], elems = (- 8322815 / 8388608) # replicate 12287 1 \<rparr>]"
    by (simp add: dcgan_load_images_def img_shape_def DCGAN_CONFIG_def normalize_img_def
          normalize_px_1 normalize_px_255)
  show ?thesis by (rule conjI [OF a b])
qed

theorem cyclegan_training_pixels_counterexample:
  "fst (cyclegan_load_images CYCLEGAN_CONFIG
      [(''input/a.png'', \<lparr> shape = [32, 32, 3], elems = replicate 3072 255 \<rparr>)]) =
     [\<lparr> shape = [32, 32, 3], elems = replicate 3072 255 \<rparr>]
   \<and> \<not> real (unat (255 :: uint8)) \<le> 1"
  by (simp add: cyclegan_load_images_def c_img_shape_def CYCLEGAN_CONFIG_def)

section \<open>Properties of the composite models\<close>

text \<open>
  Claim C2 (as amended). In the DCGAN, \<open>comb\<close> computes the discriminator applied to the
  generator's output, and it is compiled while the discriminator is not trainable. In
  the CycleGAN, the discriminator composites are \<open>comb1\<close> (\<open>discr1\<close> after \<open>gen1\<close>) and
  \<open>comb2\<close> (\<open>discr2\<close> after \<open>gen2\<close>); \<open>comb\<close> is \<open>gen2\<close> after \<open>gen1\<close>, compiled with the
  mean absolute error.
\<close>

theorem composite_models:
  "call_model f (c_model (self_comb (dcgan_init cfg))) v = f Discr (f Gen v)
   \<and> \<not> self_trainable (dcgan_init cfg) Discr
   \<and> c_trainable (self_comb (dcgan_init cfg)) = [Gen]
   \<and> getattr (cyclegan_init ccfg) ''comb1'' =
        Inr (ModelV \<lparr> m_input = ''x'', m_output = Call Discr1 (Call Gen1 (Input ''x'')) \<rparr>)
   \<and> call_model g \<lparr> m_input = ''x'', m_output = Call Discr1 (Call Gen1 (Input ''x'')) \<rparr> u = g Discr1 (g Gen1 u)
   \<and> getattr (cyclegan_init ccfg) ''comb2'' =
        Inr (ModelV \<lparr> m_input = ''y'', m_output = Call Discr2 (Call Gen2 (Input ''y'')) \<rparr>)
   \<and> call_model g \<lparr> m_input = ''y'', m_output = Call Discr2 (Call Gen2 (Input ''y'')) \<rparr> u = g Discr2 (g Gen2 u)
   \<and> getattr (cyclegan_init ccfg) ''comb'' =
        Inr (CompiledV \<lparr> c_model = \<lparr> m_input = ''x'', m_output = Call Gen2 (Call Gen1 (Input ''x'')) \<rparr>,
                         c_loss = Mean_absolute_error, c_metrics = [], c_trainable = [Gen1, Gen2] \<rparr>)
   \<and> call_model g \<lparr> m_input = ''x'', m_output = Call Gen2 (Call Gen1 (Input ''x'')) \<rparr> u = g Gen2 (g Gen1 u)"
  by (simp add: call_model_def dcgan_init_def compile_def getattr_def cyclegan_init_def Let_def)

text \<open>
  The claim as first stated fails for the CycleGAN: on an image of the configured shape
  \<open>[32, 32, 3]\<close> its \<open>comb\<close> returns a tensor of that shape, where \<open>discr1\<close> after \<open>gen1\<close>
  returns one number.
\<close>

theorem cyclegan_comb_counterexample:
  "getattr (cyclegan_init CYCLEGAN_CONFIG) ''comb'' =
     Inr (CompiledV \<lparr> c_model = \<lparr> m_input = ''x'', m_output = Call Gen2 (Call Gen1 (Input ''x'')) \<rparr>,
                      c_loss = Mean_absolute_error, c_metrics = [], c_trainable = [Gen1, Gen2] \<rparr>)
   \<and> call_model (cyclegan_shape_fn CYCLEGAN_CONFIG)
        \<lparr> m_input = ''x'', m_output = Call Gen2 (Call Gen1 (Input ''x'')) \<rparr> (Some [32, 32, 3]) = Some [32, 32, 3]
   \<and> cyclegan_shape_fn CYCLEGAN_CONFIG Discr1 (cyclegan_shape_fn CYCLEGAN_CONFIG Gen1 (Some [32, 32, 3])) = Some [1]"
  by (simp add: getattr_def cyclegan_init_def compile_def Let_def call_model_def cyclegan_shape_fn_def
        cyclegan_archs_def c_build_generator_def c_build_discriminator_def CYCLEGAN_CONFIG_def
        c_img_shape_def conv_output_length_def deconv_length_def)

text \<open>
  Claim C9. An optimizer step through \<open>comb\<close> leaves the weights of the discriminator as
  they were: \<open>comb\<close> was compiled after \<open>discr.trainable = False\<close>, so the generator is
  the only network whose weights the step may change (the discriminator's own compiled
  model, made before the flag was cleared, still trains it).
\<close>

theorem comb_step_leaves_discriminator:
  "weights (snd (train_on_batch K (self_comb (dcgan_init cfg)) xs ys st)) Discr = weights st Discr
   \<and> weights (snd (train_on_batch K (self_comb (dcgan_init cfg)) xs ys st)) =
       (weights st)(Gen := optimizer_step K (self_comb (dcgan_init cfg)) (weights st) xs ys Gen)
   \<and> c_trainable (self_comb (dcgan_init cfg)) = [Gen]
   \<and> c_trainable (self_discr (dcgan_init cfg)) = [Discr]"
  by (auto simp add: train_on_batch_def dcgan_init_def compile_def fun_eq_iff Let_def)

section \<open>Properties of the networks\<close>

lemma shape_through_append:
  "shape_through (ls @ ms) sh =
     (case shape_through ls sh of None \<Rightarrow> None | Some sh' \<Rightarrow> shape_through ms sh')"
  by (induction ls arbitrary: sh) (auto split: option.splits)

lemma final_conv_flatten:
  "shape_through [Conv2D 1 4 1 Valid act, Flatten] [a, a, c] = Some [1] \<longleftrightarrow> a = 4"
proof (cases "a < 4")
  case True
  then show ?thesis by (simp add: conv_output_length_def)
next
  case False
  then obtain b where b: "a = b + 4" by (metis add.commute le_Suc_ex not_less)
  show ?thesis by (simp add: b conv_output_length_def)
qed

lemma final_conv_shape:
  "shape_through [Conv2D 1 4 1 Valid act] [4, 4, c] = Some [1, 1, 1]"
  by (simp add: conv_output_length_def)

lemma pool_2: "\<not> n < 2 \<Longrightarrow> Suc ((n - 2) div 2) = n div 2"
  by arith

lemma discr_size_range:
  "\<not> (((s + 1) div 2 + 1) div 2 + 1) div 2 < 2 \<and> (((s + 1) div 2 + 1) div 2 + 1) div 2 div 2 = 4
     \<longleftrightarrow> 57 \<le> s \<and> s \<le> (72 :: nat)"
proof -
  define a1 where "a1 = (s + 1) div 2"
  define a2 where "a2 = (a1 + 1) div 2"
  define a3 where "a3 = (a2 + 1) div 2"
  have s1: "29 \<le> a1 \<and> a1 \<le> 36 \<longleftrightarrow> 57 \<le> s \<and> s \<le> 72" unfolding a1_def by arith
  have s2: "15 \<le> a2 \<and> a2 \<le> 18 \<longleftrightarrow> 29 \<le> a1 \<and> a1 \<le> 36" unfolding a2_def by arith
  have s3: "8 \<le> a3 \<and> a3 \<le> 9 \<longleftrightarrow> 15 \<le> a2 \<and> a2 \<le> 18" unfolding a3_def by arith
  have s4: "\<not> a3 < 2 \<and> a3 div 2 = 4 \<longleftrightarrow> 8 \<le> a3 \<and> a3 \<le> 9" by arith
  from s1 s2 s3 s4 have "\<not> a3 < 2 \<and> a3 div 2 = 4 \<longleftrightarrow> 57 \<le> s \<and> s \<le> 72" by blast
  then show ?thesis unfolding a3_def a2_def a1_def .
qed

lemma c_discr_size_range:
  "(((s + 1) div 2 + 1) div 2 + 1) div 2 = 4 \<longleftrightarrow> 25 \<le> s \<and> s \<le> (32 :: nat)"
proof -
  define a1 where "a1 = (s + 1) div 2"
  define a2 where "a2 = (a1 + 1) div 2"
  have s1: "13 \<le> a1 \<and> a1 \<le> 16 \<longleftrightarrow> 25 \<le> s \<and> s \<le> 32" unfolding a1_def by arith
  have s2: "7 \<le> a2 \<and> a2 \<le> 8 \<longleftrightarrow> 13 \<le> a1 \<and> a1 \<le> 16" unfolding a2_def by arith
  have s3: "(a2 + 1) div 2 = 4 \<longleftrightarrow> 7 \<le> a2 \<and> a2 \<le> 8" by arith
  from s1 s2 s3 have "(a2 + 1) div 2 = 4 \<longleftrightarrow> 25 \<le> s \<and> s \<le> 32" by blast
  then show ?thesis unfolding a2_def a1_def .
qed

lemma discr_layers:
  "layers (build_discriminator cfg) =
     [ Conv2D (ndf cfg) 4 2 Same Linear, LeakyReLU (alpha cfg), BatchNormalization,
       Conv2D (ndf cfg * 2) 4 2 Same Linear, LeakyReLU (alpha cfg), BatchNormalization,
       Conv2D (ndf cfg * 4) 4 2 Same Linear, LeakyReLU (alpha cfg), BatchNormalization,
       MaxPooling2D 2, UpSampling2D 2,
       Conv2D (ndf cfg * 8) 4 2 Same Linear, LeakyReLU (alpha cfg), BatchNormalization ]
     @ [Conv2D 1 4 1 Valid Sigmoid, Flatten]"
  by (simp add: build_discriminator_def)

lemma discr_butlast:
  "butlast (layers (build_discriminator cfg)) =
     [ Conv2D (ndf cfg) 4 2 Same Linear, LeakyReLU (alpha cfg), BatchNormalization,
       Conv2D (ndf cfg * 2) 4 2 Same Linear, LeakyReLU (alpha cfg), BatchNormalization,
       Conv2D (ndf cfg * 4) 4 2 Same Linear, LeakyReLU (alpha cfg), BatchNormalization,
       MaxPooling2D 2, UpSampling2D 2,
       Conv2D (ndf cfg * 8) 4 2 Same Linear, LeakyReLU (alpha cfg), BatchNormalization ]
     @ [Conv2D 1 4 1 Valid Sigmoid]"
  by (simp add: build_discriminator_def)

lemma discr_prefix:
  "shape_through
     [ Conv2D (ndf cfg) 4 2 Same Linear, LeakyReLU (alpha cfg), BatchNormalization,
       Conv2D (ndf cfg * 2) 4 2 Same Linear, LeakyReLU (alpha cfg), BatchNormalization,
       Conv2D (ndf cfg * 4) 4 2 Same Linear, LeakyReLU (alpha cfg), BatchNormalization,
       MaxPooling2D 2, UpSampling2D 2,
       Conv2D (ndf cfg * 8) 4 2 Same Linear, LeakyReLU (alpha cfg), BatchNormalization ]
     [s, s, c] =
     (if (((s + 1) div 2 + 1) div 2 + 1) div 2 < 2 then None
      else Some [(((s + 1) div 2 + 1) div 2 + 1) div 2 div 2,
                 (((s + 1) div 2 + 1) div 2 + 1) div 2 div 2, ndf cfg * 8])"
  by (simp add: conv_output_length_def pool_2)

lemma discr_input: "input_shape (build_discriminator cfg) = [size_cfg cfg, size_cfg cfg, nc cfg]"
  by (simp add: build_discriminator_def img_shape_def)

lemma discr_scalar_iff:
  "output_shape (build_discriminator cfg) = Some [1] \<longleftrightarrow> 57 \<le> size_cfg cfg \<and> size_cfg cfg \<le> 72"
proof -
  define a3 where "a3 = (((size_cfg cfg + 1) div 2 + 1) div 2 + 1) div 2"
  have r: "\<not> a3 < 2 \<and> a3 div 2 = 4 \<longleftrightarrow> 57 \<le> size_cfg cfg \<and> size_cfg cfg \<le> 72"
    unfolding a3_def by (rule discr_size_range)
  have eq: "output_shape (build_discriminator cfg) =
          (if a3 < 2 then None
           else shape_through [Conv2D 1 4 1 Valid Sigmoid, Flatten] [a3 div 2, a3 div 2, ndf cfg * 8])"
    unfolding output_shape_def a3_def discr_input discr_layers shape_through_append discr_prefix
    by simp
  have "output_shape (build_discriminator cfg) = Some [1] \<longleftrightarrow> \<not> a3 < 2 \<and> a3 div 2 = 4"
  proof (cases "a3 < 2")
    case True
    then show ?thesis by (simp only: eq if_True) simp
  next
    case False
    then show ?thesis by (simp only: eq if_False final_conv_flatten) simp
  qed
  then show ?thesis using r by simp
qed

lemma discr_collapses:
  assumes "57 \<le> size_cfg cfg" "size_cfg cfg \<le> 72"
  shows "shape_through (butlast (layers (build_discriminator cfg))) (input_shape (build_discriminator cfg))
           = Some [1, 1, 1]"
proof -
  define a3 where "a3 = (((size_cfg cfg + 1) div 2 + 1) div 2 + 1) div 2"
  have r: "\<not> a3 < 2" "a3 div 2 = 4"
    using assms discr_size_range [of "size_cfg cfg"] unfolding a3_def by blast+
  have "shape_through (butlast (layers (build_discriminator cfg))) (input_shape (build_discriminator cfg)) =
          (if a3 < 2 then None
           else shape_through [Conv2D 1 4 1 Valid Sigmoid] [a3 div 2, a3 div 2, ndf cfg * 8])"
    unfolding a3_def discr_input discr_butlast shape_through_append discr_prefix
    by simp
  then show ?thesis using r by (simp only: if_False final_conv_shape)
qed

lemma c_discr_layers:
  "layers (c_build_discriminator cfg) =
     [ Conv2D (c_ndf cfg) 4 2 Same Linear, LeakyReLU (c_alpha cfg),
       Conv2D (c_ndf cfg) 4 2 Same Linear, LeakyReLU (c_alpha cfg), BatchNormalization,
       Conv2D (c_ndf cfg * 8) 4 2 Same Linear, LeakyReLU (c_alpha cfg), BatchNormalization ]
     @ [Conv2D 1 4 1 Valid Sigmoid, Flatten]"
  by (simp add: c_build_discriminator_def)

lemma c_discr_butlast:
  "butlast (layers (c_build_discriminator cfg)) =
     [ Conv2D (c_ndf cfg) 4 2 Same Linear, LeakyReLU (c_alpha cfg),
       Conv2D (c_ndf cfg) 4 2 Same Linear, LeakyReLU (c_alpha cfg), BatchNormalization,
       Conv2D (c_ndf cfg * 8) 4 2 Same Linear, LeakyReLU (c_alpha cfg), BatchNormalization ]
     @ [Conv2D 1 4 1 Valid Sigmoid]"
  by (simp add: c_build_discriminator_def)

lemma c_discr_prefix:
  "shape_through
     [ Conv2D (c_ndf cfg) 4 2 Same Linear, LeakyReLU (c_alpha cfg),
       Conv2D (c_ndf cfg) 4 2 Same Linear, LeakyReLU (c_alpha cfg), BatchNormalization,
       Conv2D (c_ndf cfg * 8) 4 2 Same Linear, LeakyReLU (c_alpha cfg), BatchNormalization ]
     [s, s, c] =
     Some [(((s + 1) div 2 + 1) div 2 + 1) div 2, (((s + 1) div 2 + 1) div 2 + 1) div 2, c_ndf cfg * 8]"
  by (simp add: conv_output_length_def)

lemma c_discr_input: "input_shape (c_build_discriminator cfg) = [c_size cfg, c_size cfg, c_nc cfg]"
  by (simp add: c_build_discriminator_def c_img_shape_def)

lemma c_discr_scalar_iff:
  "output_shape (c_build_discriminator cfg) = Some [1] \<longleftrightarrow> 25 \<le> c_size cfg \<and> c_size cfg \<le> 32"
proof -
  define a where "a = (((c_size cfg + 1) div 2 + 1) div 2 + 1) div 2"
  have r: "a = 4 \<longleftrightarrow> 25 \<le> c_size cfg \<and> c_size cfg \<le> 32"
    unfolding a_def by (rule c_discr_size_range)
  have "output_shape (c_build_discriminator cfg) =
          shape_through [Conv2D 1 4 1 Valid Sigmoid, Flatten] [a, a, c_ndf cfg * 8]"
    unfolding output_shape_def a_def c_discr_input c_discr_layers shape_through_append c_discr_prefix
    by simp
  then show ?thesis using r by (simp only: final_conv_flatten)
qed

lemma c_discr_collapses:
  assumes "25 \<le> c_size cfg" "c_size cfg \<le> 32"
  shows "shape_through (butlast (layers (c_build_discriminator cfg))) (input_shape (c_build_discriminator cfg))
           = Some [1, 1, 1]"
proof -
  define a where "a = (((c_size cfg + 1) div 2 + 1) div 2 + 1) div 2"
  have r: "a = 4" using assms c_discr_size_range [of "c_size cfg"] unfolding a_def by blast
  have "shape_through (butlast (layers (c_build_discriminator cfg))) (input_shape (c_build_discriminator cfg)) =
          shape_through [Conv2D 1 4 1 Valid Sigmoid] [a, a, c_ndf cfg * 8]"
    unfolding a_def c_discr_input c_discr_butlast shape_through_append c_discr_prefix
    by simp
  then show ?thesis using r by (simp only: final_conv_shape)
qed

lemma sigmoid_range: "0 \<le> apply_activation Sigmoid x \<and> apply_activation Sigmoid x \<le> 1"
proof -
  have pos: "0 < 1 + exp (- x)" by (simp add: add_pos_pos)
  have "0 \<le> 1 / (1 + exp (- x))" using pos by simp
  moreover have "1 / (1 + exp (- x)) \<le> 1" using pos by (simp add: divide_le_eq_1_pos)
  ultimately show ?thesis by simp
qed

lemma call_layers_append:
  "call_layers op i (ls @ ms) x = call_layers op (i + length ls) ms (call_layers op i ls x)"
  by (induction ls arbitrary: i x) auto

lemma ends_in_sigmoid:
  "list_all (\<lambda>v. 0 \<le> v \<and> v \<le> 1) (call_layers op i (ls @ [Conv2D f k s p Sigmoid, Flatten]) x)"
  using sigmoid_range by (simp add: call_layers_append list_all_iff del: apply_activation.simps)

lemma discr_values:
  "list_all (\<lambda>v. 0 \<le> v \<and> v \<le> 1) (call_sequential op (build_discriminator cfg) x)"
  unfolding call_sequential_def discr_layers by (rule ends_in_sigmoid)

lemma c_discr_values:
  "list_all (\<lambda>v. 0 \<le> v \<and> v \<le> 1) (call_sequential op (c_build_discriminator cfg) x)"
  unfolding call_sequential_def c_discr_layers by (rule ends_in_sigmoid)

lemma generator_shape: "output_shape (build_generator cfg) = Some [64, 64, nc cfg]"
  by (simp add: output_shape_def build_generator_def img_shape_def deconv_length_def conv_output_length_def)

lemma c_generator_shape:
  "output_shape (c_build_generator cfg) = (if 7 \<le> c_size cfg then Some (c_img_shape cfg) else None)"
  by (auto simp add: output_shape_def c_build_generator_def c_img_shape_def deconv_length_def
        conv_output_length_def)

text \<open>
  Claim C5 (as amended). The output of the DCGAN generator has shape \<open>(64, 64, nc)\<close>
  whatever \<open>size\<close> and \<open>nz\<close> are: it is the configured image shape exactly when
  \<open>size = 64\<close>, as in the script's \<open>CONFIG\<close>. The output of the CycleGAN generator has
  the configured image shape \<open>(size, size, nc)\<close> whenever \<open>size \<ge> 7\<close> (below that the
  second convolution has no output).
\<close>

theorem generator_output_shape:
  "output_shape (build_generator cfg) = Some [64, 64, nc cfg]
   \<and> (output_shape (build_generator cfg) = Some (img_shape cfg) \<longleftrightarrow> size_cfg cfg = 64)
   \<and> (output_shape (c_build_generator ccfg) = Some (c_img_shape ccfg) \<longleftrightarrow> 7 \<le> c_size ccfg)"
  by (simp add: generator_shape c_generator_shape) (auto simp: img_shape_def)

theorem generator_output_shape_witness:
  "size_cfg DCGAN_CONFIG = 64
   \<and> output_shape (build_generator DCGAN_CONFIG) = Some (img_shape DCGAN_CONFIG)
   \<and> 7 \<le> c_size CYCLEGAN_CONFIG
   \<and> output_shape (c_build_generator CYCLEGAN_CONFIG) = Some (c_img_shape CYCLEGAN_CONFIG)"
proof -
  have d: "size_cfg DCGAN_CONFIG = 64" by (simp add: DCGAN_CONFIG_def)
  have c: "7 \<le> c_size CYCLEGAN_CONFIG" by (simp add: CYCLEGAN_CONFIG_def)
  show ?thesis
    using d c generator_output_shape [of DCGAN_CONFIG CYCLEGAN_CONFIG] by blast
qed

text \<open>
  With \<open>size = 60\<close> the DCGAN discriminator is built as with \<open>size = 64\<close>, and the
  generator built after it returns \<open>64 \<times> 64\<close> images, not \<open>60 \<times> 60\<close> ones.
\<close>

theorem generator_output_shape_counterexample:
  "output_shape (build_discriminator (DCGAN_CONFIG\<lparr>size_cfg := 60\<rparr>)) = Some [1]
   \<and> output_shape (build_generator (DCGAN_CONFIG\<lparr>size_cfg := 60\<rparr>)) = Some [64, 64, 3]
   \<and> img_shape (DCGAN_CONFIG\<lparr>size_cfg := 60\<rparr>) = [60, 60, 3]"
  by (simp add: output_shape_def build_discriminator_def build_generator_def img_shape_def
        DCGAN_CONFIG_def conv_output_length_def deconv_length_def)

text \<open>
  Claim C6 (as amended). Every value that a discriminator returns lies in \<open>[0, 1]\<close>, its
  last activation being a sigmoid. The output is a single number, the tensor before
  \<open>Flatten\<close> having shape \<open>(1, 1, 1)\<close>, exactly when \<open>57 \<le> size \<le> 72\<close> in the DCGAN and
  \<open>25 \<le> size \<le> 32\<close> in the CycleGAN, as with the sizes 64 and 32 of the scripts' \<open>CONFIG\<close>.
\<close>

theorem discriminator_output:
  "(output_shape (build_discriminator cfg) = Some [1] \<longleftrightarrow> 57 \<le> size_cfg cfg \<and> size_cfg cfg \<le> 72)
   \<and> (57 \<le> size_cfg cfg \<and> size_cfg cfg \<le> 72 \<longrightarrow>
        shape_through (butlast (layers (build_discriminator cfg))) (input_shape (build_discriminator cfg))
          = Some [1, 1, 1])
   \<and> list_all (\<lambda>v. 0 \<le> v \<and> v \<le> 1) (call_sequential op (build_discriminator cfg) x)
   \<and> (output_shape (c_build_discriminator ccfg) = Some [1] \<longleftrightarrow> 25 \<le> c_size ccfg \<and> c_size ccfg \<le> 32)
   \<and> (25 \<le> c_size ccfg \<and> c_size ccfg \<le> 32 \<longrightarrow>
        shape_through (butlast (layers (c_build_discriminator ccfg))) (input_shape (c_build_discriminator ccfg))
          = Some [1, 1, 1])
   \<and> list_all (\<lambda>v. 0 \<le> v \<and> v \<le> 1) (call_sequential op' (c_build_discriminator ccfg) x')"
  using discr_scalar_iff discr_collapses discr_values c_discr_scalar_iff c_discr_collapses c_discr_values
  by blast

theorem discriminator_output_witness:
  "57 \<le> size_cfg DCGAN_CONFIG \<and> size_cfg DCGAN_CONFIG \<le> 72
   \<and> output_shape (build_discriminator DCGAN_CONFIG) = Some [1]
   \<and> shape_through (butlast (layers (build_discriminator DCGAN_CONFIG)))
        (input_shape (build_discriminator DCGAN_CONFIG)) = Some [1, 1, 1]
   \<and> 25 \<le> c_size CYCLEGAN_CONFIG \<and> c_size CYCLEGAN_CONFIG \<le> 32
   \<and> output_shape (c_build_discriminator CYCLEGAN_CONFIG) = Some [1]
   \<and> shape_through (butlast (layers (c_build_discriminator CYCLEGAN_CONFIG)))
        (input_shape (c_build_discriminator CYCLEGAN_CONFIG)) = Some [1, 1, 1]"
proof -
  have d: "57 \<le> size_cfg DCGAN_CONFIG \<and> size_cfg DCGAN_CONFIG \<le> 72"
    by (simp add: DCGAN_CONFIG_def)
  have c: "25 \<le> c_size CYCLEGAN_CONFIG \<and> c_size CYCLEGAN_CONFIG \<le> 32"
    by (simp add: CYCLEGAN_CONFIG_def)
  show ?thesis
    using d c discriminator_output [where cfg = DCGAN_CONFIG and ccfg = CYCLEGAN_CONFIG] by blast
qed

text \<open>
  A CycleGAN of \<open>size = 64\<close>: its generator keeps the image shape, and its discriminator
  returns 25 numbers for an image of that shape.
\<close>

theorem discriminator_output_counterexample:
  "output_shape (c_build_generator (CYCLEGAN_CONFIG\<lparr>c_size := 64\<rparr>)) = Some [64, 64, 3]
   \<and> input_shape (c_build_discriminator (CYCLEGAN_CONFIG\<lparr>c_size := 64\<rparr>)) = [64, 64, 3]
   \<and> shape_through (butlast (layers (c_build_discriminator (CYCLEGAN_CONFIG\<lparr>c_size := 64\<rparr>))))
        (input_shape (c_build_discriminator (CYCLEGAN_CONFIG\<lparr>c_size := 64\<rparr>))) = Some [5, 5, 1]
   \<and> output_shape (c_build_discriminator (CYCLEGAN_CONFIG\<lparr>c_size := 64\<rparr>)) = Some [25]"
  by (simp add: output_shape_def c_build_generator_def c_build_discriminator_def c_img_shape_def
        CYCLEGAN_CONFIG_def conv_output_length_def deconv_length_def)


section \<open>Properties of training\<close>

lemma getattr_nz: "getattr (cyclegan_init cfg) ''nz'' = Inl (AttributeError ''nz'')"
  by (simp add: getattr_def cyclegan_init_def Let_def)

lemma getattr_gen: "getattr (cyclegan_init cfg) ''gen'' = Inl (AttributeError ''gen'')"
  by (simp add: getattr_def cyclegan_init_def Let_def)

lemma getattr_discr1:
  "getattr (cyclegan_init cfg) ''discr1'' =
     Inr (CompiledV \<lparr> c_model = \<lparr> m_input = ''input'', m_output = Call Discr1 (Input ''input'') \<rparr>,
                      c_loss = Binary_crossentropy, c_metrics = [''accuracy''], c_trainable = [Discr1] \<rparr>)"
  by (simp add: getattr_def cyclegan_init_def Let_def compile_def)

lemma randint_nonempty:
  "0 < high \<Longrightarrow> randint r k 0 high n = Inr (map (\<lambda>i. draw r k i mod high) [0..<n])"
  by (simp add: randint_def)

lemma randint_empty: "randint r k 0 0 n = Inl (ValueError ''low >= high'')"
  by (simp add: randint_def)

lemma cyclegan_iteration_nonempty:
  assumes "x_train \<noteq> []"
  shows "cyclegan_iteration K r cfg (cyclegan_init cfg) x_train half_batch save_interval epoch st =
     Inl (AttributeError ''nz'',
          snd (train_on_batch K
                 \<lparr> c_model = \<lparr> m_input = ''input'', m_output = Call Discr1 (Input ''input'') \<rparr>,
                   c_loss = Binary_crossentropy, c_metrics = [''accuracy''], c_trainable = [Discr1] \<rparr>
                 (map (\<lambda>img. map (\<lambda>p. real (unat p)) (elems img))
                    (take_rows x_train (map (\<lambda>i. draw r (epoch, 0) i mod length x_train) [0..<half_batch])))
                 (ones half_batch) st))"
  using assms
  by (simp add: cyclegan_iteration_def randint_nonempty getattr_nz getattr_discr1 Let_def
        split: prod.splits del: of_nat_unat)

lemma cyclegan_iteration_empty:
  "cyclegan_iteration K r cfg self [] half_batch save_interval epoch st =
     Inl (ValueError ''low >= high'', st)"
  by (simp add: cyclegan_iteration_def randint_empty)

lemma cyclegan_iteration_raises:
  "\<exists>e st'. cyclegan_iteration K r cfg (cyclegan_init cfg) x_train half_batch save_interval epoch st = Inl (e, st')"
  by (cases "x_train = []") (simp_all add: cyclegan_iteration_empty cyclegan_iteration_nonempty)


lemma fits_append: "fits (xs @ ys) = fits xs @ fits ys"
  by (induction xs rule: fits.induct) auto

lemma fits_Printed: "fits (map Printed out) = []"
  by (induction out) auto

lemma take_rows_subset:
  "xs \<noteq> [] \<Longrightarrow> set (take_rows xs (map (\<lambda>i. f i mod length xs) is)) \<subseteq> set xs"
  by (auto simp: take_rows_def)

lemma cyclegan_train_unfold:
  assumes "0 < epochs"
  shows "cyclegan_train K r cfg dir epochs half_batch save_interval st =
     (case cyclegan_iteration K r cfg (cyclegan_init cfg) (fst (cyclegan_load_images cfg dir))
             half_batch save_interval 0
             (st\<lparr> trace := trace st @ map Printed (snd (cyclegan_load_images cfg dir)) \<rparr>) of
        Inl err \<Rightarrow> Inl err
      | Inr st' \<Rightarrow> cyclegan_loop K r cfg (cyclegan_init cfg) (fst (cyclegan_load_images cfg dir))
                     half_batch save_interval [Suc 0..<nat epochs] st')"
proof -
  have "[0..<nat epochs] = 0 # [Suc 0..<nat epochs]" using assms by (simp add: upt_conv_Cons)
  then show ?thesis by (simp add: cyclegan_train_def case_prod_beta)
qed

text \<open>
  Claim C10 (as amended). For every \<open>epochs \<ge> 1\<close> and every \<open>half_batch\<close>,
  \<open>CYCLEGAN.train\<close> never completes a training iteration: the first pass of the loop
  body raises. When at least one image of the directory has the configured shape, the
  exception is the \<open>AttributeError\<close> for \<open>nz\<close>, raised while the latent batch is built,
  after one optimizer step of \<open>discr1\<close> on real images: \<open>__init__\<close> binds \<open>nx\<close> and \<open>ny\<close>
  and never \<open>nz\<close>. When no image has the configured shape and \<open>half_batch \<ge> 1\<close>, the
  training array is empty and \<open>randint\<close> raises \<open>ValueError\<close> before any step.
\<close>

theorem cyclegan_train_never_completes:
  assumes "0 < epochs"
  shows "raised (cyclegan_train K r cfg dir epochs half_batch save_interval st) \<noteq> None
   \<and> (fst (cyclegan_load_images cfg dir) \<noteq> [] \<longrightarrow>
        raised (cyclegan_train K r cfg dir epochs half_batch save_interval st) = Some (AttributeError ''nz'')
        \<and> fits (trace (final_state (cyclegan_train K r cfg dir epochs half_batch save_interval st))) =
            fits (trace st) @
            [(\<lparr> c_model = \<lparr> m_input = ''input'', m_output = Call Discr1 (Input ''input'') \<rparr>,
                c_loss = Binary_crossentropy, c_metrics = [''accuracy''], c_trainable = [Discr1] \<rparr>,
              ones half_batch)])
   \<and> (fst (cyclegan_load_images cfg dir) = [] \<and> 0 < half_batch \<longrightarrow>
        raised (cyclegan_train K r cfg dir epochs half_batch save_interval st) = Some (ValueError ''low >= high'')
        \<and> fits (trace (final_state (cyclegan_train K r cfg dir epochs half_batch save_interval st))) =
            fits (trace st))
   \<and> getattr (cyclegan_init cfg) ''nz'' = Inl (AttributeError ''nz'')
   \<and> getattr (cyclegan_init cfg) ''nx'' = Inr (IntV (c_nx cfg))
   \<and> getattr (cyclegan_init cfg) ''ny'' = Inr (IntV (c_ny cfg))"
proof -
  let ?run = "cyclegan_train K r cfg dir epochs half_batch save_interval st"
  let ?x = "fst (cyclegan_load_images cfg dir)"
  have never: "raised ?run \<noteq> None"
  proof -
    obtain e st' where "cyclegan_iteration K r cfg (cyclegan_init cfg) ?x half_batch save_interval 0
        (st\<lparr> trace := trace st @ map Printed (snd (cyclegan_load_images cfg dir)) \<rparr>) = Inl (e, st')"
      using cyclegan_iteration_raises by blast
    then show ?thesis by (simp add: cyclegan_train_unfold [OF assms] raised_def)
  qed
  have nonempty: "raised ?run = Some (AttributeError ''nz'')
      \<and> fits (trace (final_state ?run)) = fits (trace st) @
            [(\<lparr> c_model = \<lparr> m_input = ''input'', m_output = Call Discr1 (Input ''input'') \<rparr>,
                c_loss = Binary_crossentropy, c_metrics = [''accuracy''], c_trainable = [Discr1] \<rparr>,
              ones half_batch)]" if "?x \<noteq> []"
    using that
    by (simp add: cyclegan_train_unfold [OF assms] cyclegan_iteration_nonempty raised_def final_state_def
          train_on_batch_def fits_append fits_Printed del: of_nat_unat)
  have empty: "raised ?run = Some (ValueError ''low >= high'') \<and> fits (trace (final_state ?run)) = fits (trace st)"
    if "?x = []"
    using that
    by (simp add: cyclegan_train_unfold [OF assms] cyclegan_iteration_empty raised_def final_state_def
          fits_append fits_Printed)
  have attrs: "getattr (cyclegan_init cfg) ''nx'' = Inr (IntV (c_nx cfg))"
    "getattr (cyclegan_init cfg) ''ny'' = Inr (IntV (c_ny cfg))"
    by (simp_all add: getattr_def cyclegan_init_def Let_def)
  show ?thesis using never nonempty empty attrs getattr_nz by blast
qed

theorem cyclegan_train_never_completes_witness:
  "(0 :: int) < 1
   \<and> fst (cyclegan_load_images CYCLEGAN_CONFIG
        [(''input/a.png'', \<lparr> shape = [32, 32, 3], elems = replicate 3072 0 \<rparr>)]) \<noteq> []
   \<and> raised (cyclegan_train example_keras example_rng CYCLEGAN_CONFIG
        [(''input/a.png'', \<lparr> shape = [32, 32, 3], elems = replicate 3072 0 \<rparr>)] 1 1 1 example_state)
       = Some (AttributeError ''nz'')
   \<and> fits (trace (final_state (cyclegan_train example_keras example_rng CYCLEGAN_CONFIG
        [(''input/a.png'', \<lparr> shape = [32, 32, 3], elems = replicate 3072 0 \<rparr>)] 1 1 1 example_state)))
       = [(\<lparr> c_model = \<lparr> m_input = ''input'', m_output = Call Discr1 (Input ''input'') \<rparr>,
             c_loss = Binary_crossentropy, c_metrics = [''accuracy''], c_trainable = [Discr1] \<rparr>, [[1]])]"
proof -
  let ?dir = "[(''input/a.png'', \<lparr> shape = [32, 32, 3], elems = replicate 3072 (0 :: uint8) \<rparr>)]"
  have e: "(0 :: int) < 1" by simp
  have x: "fst (cyclegan_load_images CYCLEGAN_CONFIG ?dir) \<noteq> []"
    by (simp add: cyclegan_load_images_def c_img_shape_def CYCLEGAN_CONFIG_def)
  have t: "fits (trace (example_state :: (cnet, nat) state)) = []" "ones 1 = [[1]]"
    by (simp_all add: example_state_def ones_def)
  show ?thesis
    using e x t cyclegan_train_never_completes
      [OF e, of example_keras example_rng CYCLEGAN_CONFIG ?dir 1 1 example_state]
    by simp
qed

text \<open>
  With an empty directory the exception is not an \<open>AttributeError\<close>:
  \<open>randint(0, 0, 1)\<close> raises first.
\<close>

theorem cyclegan_train_empty_counterexample:
  "raised (cyclegan_train example_keras example_rng CYCLEGAN_CONFIG [] 1 1 1
     (example_state :: (cnet, nat) state)) = Some (ValueError ''low >= high'')"
  by (simp add: cyclegan_train_def cyclegan_load_images_def cyclegan_iteration_empty raised_def)


lemma dcgan_iteration_trace:
  assumes "x_train \<noteq> []"
  shows "take 3 (drop (length (trace st))
           (trace (final_state (dcgan_iteration K r self x_train half_batch save_interval epoch st)))) =
         [ TrainOnBatch (self_discr self)
             (map elems (take_rows x_train (map (\<lambda>i. draw r (epoch, 0) i mod length x_train) [0..<half_batch])))
             (ones half_batch),
           TrainOnBatch (self_discr self)
             (predict K (self_archs self) (weights st) (self_gen self)
                (normal r (epoch, 1) half_batch (self_nz self)))
             (zeros half_batch),
           TrainOnBatch (self_comb self) (normal r (epoch, 2) (2 * half_batch) (self_nz self))
             (ones (2 * half_batch)) ]"
  using assms
  by (simp add: dcgan_iteration_def randint_nonempty Let_def train_on_batch_def dcgan_save_images_def
        final_state_def)

lemma dcgan_iteration_fits:
  assumes "x_train \<noteq> []"
  shows "fits (trace (final_state (dcgan_iteration K r self x_train half_batch save_interval epoch st))) =
         fits (trace st) @
         [ (self_discr self, ones half_batch), (self_discr self, zeros half_batch),
           (self_comb self, ones (2 * half_batch)) ]"
  using assms
  by (simp add: dcgan_iteration_def randint_nonempty Let_def train_on_batch_def dcgan_save_images_def
        final_state_def fits_append)

lemma dcgan_iteration_returns:
  assumes "x_train \<noteq> []" "save_interval \<noteq> 0"
  shows "dcgan_iteration K r self x_train half_batch save_interval epoch st =
         Inr (final_state (dcgan_iteration K r self x_train half_batch save_interval epoch st))"
  using assms
  by (simp add: dcgan_iteration_def randint_nonempty Let_def train_on_batch_def final_state_def)

lemma dcgan_loop_fits:
  assumes "x_train \<noteq> []" "save_interval \<noteq> 0"
  shows "raised (dcgan_loop K r self x_train half_batch save_interval epochs st) = None
     \<and> fits (trace (final_state (dcgan_loop K r self x_train half_batch save_interval epochs st))) =
         fits (trace st) @
         concat (replicate (length epochs)
           [ (self_discr self, ones half_batch), (self_discr self, zeros half_batch),
             (self_comb self, ones (2 * half_batch)) ])"
proof (induction epochs arbitrary: st)
  case Nil
  show ?case by (simp add: raised_def final_state_def)
next
  case (Cons epoch epochs)
  let ?st' = "final_state (dcgan_iteration K r self x_train half_batch save_interval epoch st)"
  have step: "dcgan_loop K r self x_train half_batch save_interval (epoch # epochs) st =
              dcgan_loop K r self x_train half_batch save_interval epochs ?st'"
    by (subst dcgan_loop.simps, subst dcgan_iteration_returns [OF assms]) simp
  show ?case
    unfolding step using Cons.IH [of ?st'] by (simp add: dcgan_iteration_fits [OF assms(1)])
qed

text \<open>
  Claim C7 (as amended). In every iteration of \<open>DCGAN.train\<close> on a non-empty training
  array the discriminator is optimized on a batch of real images with every label 1,
  then on a batch of images that the generator produced with every label 0, and then
  the generator is optimized through \<open>comb\<close>, the composite compiled with the
  discriminator frozen, on a latent batch with every label 1, in that order; with
  \<open>save_interval \<noteq> 0\<close> the loop runs all its iterations. (In the CycleGAN script the
  model \<open>comb\<close> of the generator step holds no discriminator.)
\<close>

theorem dcgan_train_alternates:
  assumes "fst (dcgan_load_images cfg dir) \<noteq> []" and "0 < half_batch" and "save_interval \<noteq> 0"
  shows "raised (dcgan_train K r cfg dir epochs half_batch save_interval st) = None
   \<and> fits (trace (final_state (dcgan_train K r cfg dir epochs half_batch save_interval st))) =
       fits (trace st) @
       concat (replicate (nat epochs)
         [ (self_discr (dcgan_init cfg), ones half_batch),
           (self_discr (dcgan_init cfg), zeros half_batch),
           (self_comb (dcgan_init cfg), ones (2 * half_batch)) ])
   \<and> take 3 (drop (length (trace st1))
         (trace (final_state (dcgan_iteration K r (dcgan_init cfg) (fst (dcgan_load_images cfg dir))
                                half_batch save_interval epoch st1)))) =
       [ TrainOnBatch (self_discr (dcgan_init cfg))
           (map elems (take_rows (fst (dcgan_load_images cfg dir))
              (map (\<lambda>i. draw r (epoch, 0) i mod length (fst (dcgan_load_images cfg dir))) [0..<half_batch])))
           (ones half_batch),
         TrainOnBatch (self_discr (dcgan_init cfg))
           (predict K (self_archs (dcgan_init cfg)) (weights st1) (self_gen (dcgan_init cfg))
              (normal r (epoch, 1) half_batch (nz cfg)))
           (zeros half_batch),
         TrainOnBatch (self_comb (dcgan_init cfg)) (normal r (epoch, 2) (2 * half_batch) (nz cfg))
           (ones (2 * half_batch)) ]
   \<and> set (take_rows (fst (dcgan_load_images cfg dir))
         (map (\<lambda>i. draw r (epoch, 0) i mod length (fst (dcgan_load_images cfg dir))) [0..<half_batch]))
       \<subseteq> set (fst (dcgan_load_images cfg dir))
   \<and> ones half_batch = replicate half_batch [1]
   \<and> zeros half_batch = replicate half_batch [0]
   \<and> ones (2 * half_batch) = replicate (2 * half_batch) [1]
   \<and> c_model (self_discr (dcgan_init cfg)) = \<lparr> m_input = ''input'', m_output = Call Discr (Input ''input'') \<rparr>
   \<and> c_model (self_comb (dcgan_init cfg)) = \<lparr> m_input = ''z'', m_output = Call Discr (Call Gen (Input ''z'')) \<rparr>
   \<and> c_trainable (self_comb (dcgan_init cfg)) = [Gen]
   \<and> self_gen (dcgan_init cfg) = \<lparr> m_input = ''input'', m_output = Call Gen (Input ''input'') \<rparr>"
proof -
  let ?x = "fst (dcgan_load_images cfg dir)"
  have run: "dcgan_train K r cfg dir epochs half_batch save_interval st =
      dcgan_loop K r (dcgan_init cfg) ?x half_batch save_interval [0..<nat epochs]
        (st\<lparr> trace := trace st @ map Printed (snd (dcgan_load_images cfg dir)) \<rparr>)"
    by (simp add: dcgan_train_def case_prod_beta)
  have loop: "raised (dcgan_train K r cfg dir epochs half_batch save_interval st) = None
     \<and> fits (trace (final_state (dcgan_train K r cfg dir epochs half_batch save_interval st))) =
       fits (trace st) @
       concat (replicate (nat epochs)
         [ (self_discr (dcgan_init cfg), ones half_batch),
           (self_discr (dcgan_init cfg), zeros half_batch),
           (self_comb (dcgan_init cfg), ones (2 * half_batch)) ])"
    unfolding run
    using dcgan_loop_fits [OF assms(1) assms(3), of K r "dcgan_init cfg" half_batch "[0..<nat epochs]"]
    by (simp add: fits_append fits_Printed)
  have nzs: "self_nz (dcgan_init cfg) = nz cfg" by (simp add: dcgan_init_def Let_def)
  have iter: "take 3 (drop (length (trace st1))
         (trace (final_state (dcgan_iteration K r (dcgan_init cfg) ?x half_batch save_interval epoch st1)))) =
       [ TrainOnBatch (self_discr (dcgan_init cfg))
           (map elems (take_rows ?x (map (\<lambda>i. draw r (epoch, 0) i mod length ?x) [0..<half_batch])))
           (ones half_batch),
         TrainOnBatch (self_discr (dcgan_init cfg))
           (predict K (self_archs (dcgan_init cfg)) (weights st1) (self_gen (dcgan_init cfg))
              (normal r (epoch, 1) half_batch (nz cfg)))
           (zeros half_batch),
         TrainOnBatch (self_comb (dcgan_init cfg)) (normal r (epoch, 2) (2 * half_batch) (nz cfg))
           (ones (2 * half_batch)) ]"
    using dcgan_iteration_trace [OF assms(1), of st1 K r "dcgan_init cfg" half_batch save_interval epoch]
    by (simp only: nzs)
  have rows: "set (take_rows ?x (map (\<lambda>i. draw r (epoch, 0) i mod length ?x) [0..<half_batch])) \<subseteq> set ?x"
    using assms(1) by (rule take_rows_subset)
  have rest: "ones half_batch = replicate half_batch [1]" "zeros half_batch = replicate half_batch [0]"
    "ones (2 * half_batch) = replicate (2 * half_batch) [1]"
    "c_model (self_discr (dcgan_init cfg)) = \<lparr> m_input = ''input'', m_output = Call Discr (Input ''input'') \<rparr>"
    "c_model (self_comb (dcgan_init cfg)) = \<lparr> m_input = ''z'', m_output = Call Discr (Call Gen (Input ''z'')) \<rparr>"
    "c_trainable (self_comb (dcgan_init cfg)) = [Gen]"
    "self_gen (dcgan_init cfg) = \<lparr> m_input = ''input'', m_output = Call Gen (Input ''input'') \<rparr>"
    by (simp_all add: ones_def zeros_def dcgan_init_def Let_def compile_def)
  show ?thesis using loop iter rows rest by blast
qed


theorem dcgan_train_alternates_witness:
  "fst (dcgan_load_images DCGAN_CONFIG
      [(''../input/hands_64/a.jpg'', \<lparr> shape = [64, 64, 3], elems = replicate 12288 255 \<rparr>)]) \<noteq> []
   \<and> (0 :: nat) < 1 \<and> (3 :: int) \<noteq> 0
   \<and> raised (dcgan_train example_keras example_rng DCGAN_CONFIG
        [(''../input/hands_64/a.jpg'', \<lparr> shape = [64, 64, 3], elems = replicate 12288 255 \<rparr>)]
        2 1 3 example_state) = None
   \<and> fits (trace (final_state (dcgan_train example_keras example_rng DCGAN_CONFIG
        [(''../input/hands_64/a.jpg'', \<lparr> shape = [64, 64, 3], elems = replicate 12288 255 \<rparr>)]
        2 1 3 example_state))) =
       [ (self_discr (dcgan_init DCGAN_CONFIG), [[1]]),
         (self_discr (dcgan_init DCGAN_CONFIG), [[0]]),
         (self_comb (dcgan_init DCGAN_CONFIG), [[1], [1]]),
         (self_discr (dcgan_init DCGAN_CONFIG), [[1]]),
         (self_discr (dcgan_init DCGAN_CONFIG), [[0]]),
         (self_comb (dcgan_init DCGAN_CONFIG), [[1], [1]]) ]"
proof -
  let ?dir = "[(''../input/hands_64/a.jpg'', \<lparr> shape = [64, 64, 3], elems = replicate 12288 (255 :: uint8) \<rparr>)]"
  have x: "fst (dcgan_load_images DCGAN_CONFIG ?dir) \<noteq> []"
    by (simp add: dcgan_load_images_def img_shape_def DCGAN_CONFIG_def)
  have h: "(0 :: nat) < 1" and s: "(3 :: int) \<noteq> 0" by simp_all
  note th = dcgan_train_alternates
    [OF x h s, where K = example_keras and r = example_rng and epochs = 2 and st = example_state]
  from th have r: "raised (dcgan_train example_keras example_rng DCGAN_CONFIG ?dir 2 1 3 example_state) = None"
    by (rule conjunct1)
  from th have f: "fits (trace (final_state (dcgan_train example_keras example_rng DCGAN_CONFIG ?dir
                     2 1 3 example_state))) =
       fits (trace (example_state :: (dnet, nat) state)) @
       concat (replicate (nat 2)
         [ (self_discr (dcgan_init DCGAN_CONFIG), ones 1),
           (self_discr (dcgan_init DCGAN_CONFIG), zeros 1),
           (self_comb (dcgan_init DCGAN_CONFIG), ones (2 * 1)) ])"
    by (rule conjunct2 [THEN conjunct1])
  have c: "fits (trace (example_state :: (dnet, nat) state)) @
       concat (replicate (nat 2)
         [ (self_discr (dcgan_init DCGAN_CONFIG), ones 1),
           (self_discr (dcgan_init DCGAN_CONFIG), zeros 1),
           (self_comb (dcgan_init DCGAN_CONFIG), ones (2 * 1)) ]) =
       [ (self_discr (dcgan_init DCGAN_CONFIG), [[1]]),
         (self_discr (dcgan_init DCGAN_CONFIG), [[0]]),
         (self_comb (dcgan_init DCGAN_CONFIG), [[1], [1]]),
         (self_discr (dcgan_init DCGAN_CONFIG), [[1]]),
         (self_discr (dcgan_init DCGAN_CONFIG), [[0]]),
         (self_comb (dcgan_init DCGAN_CONFIG), [[1], [1]]) ]"
    by (simp add: example_state_def ones_def zeros_def numeral_2_eq_2)
  show ?thesis using x h s r f [unfolded c] by blast
qed

text \<open>
  \<open>CYCLEGAN.train\<close> on one image of the configured shape: the run ends in the first
  iteration after the single optimizer step on real images, and the \<open>comb\<close> that its
  generator step names is \<open>gen2\<close> after \<open>gen1\<close>.
\<close>

theorem cyclegan_train_counterexample:
  "raised (cyclegan_train example_keras example_rng CYCLEGAN_CONFIG
      [(''input/a.png'', \<lparr> shape = [32, 32, 3], elems = replicate 3072 0 \<rparr>)] 1 2 1
      (example_state :: (cnet, nat) state)) = Some (AttributeError ''nz'')
   \<and> fits (trace (final_state (cyclegan_train example_keras example_rng CYCLEGAN_CONFIG
      [(''input/a.png'', \<lparr> shape = [32, 32, 3], elems = replicate 3072 0 \<rparr>)] 1 2 1
      (example_state :: (cnet, nat) state)))) =
       [(\<lparr> c_model = \<lparr> m_input = ''input'', m_output = Call Discr1 (Input ''input'') \<rparr>,
           c_loss = Binary_crossentropy, c_metrics = [''accuracy''], c_trainable = [Discr1] \<rparr>, [[1], [1]])]
   \<and> getattr (cyclegan_init CYCLEGAN_CONFIG) ''comb'' =
       Inr (CompiledV \<lparr> c_model = \<lparr> m_input = ''x'', m_output = Call Gen2 (Call Gen1 (Input ''x'')) \<rparr>,
                        c_loss = Mean_absolute_error, c_metrics = [], c_trainable = [Gen1, Gen2] \<rparr>)"
proof -
  let ?dir = "[(''input/a.png'', \<lparr> shape = [32, 32, 3], elems = replicate 3072 (0 :: uint8) \<rparr>)]"
  have x: "fst (cyclegan_load_images CYCLEGAN_CONFIG ?dir) \<noteq> []"
    by (simp add: cyclegan_load_images_def c_img_shape_def CYCLEGAN_CONFIG_def)
  have e: "(0 :: int) < 1" by simp
  have run: "raised (cyclegan_train example_keras example_rng CYCLEGAN_CONFIG ?dir 1 2 1
               (example_state :: (cnet, nat) state)) = Some (AttributeError ''nz'')
     \<and> fits (trace (final_state (cyclegan_train example_keras example_rng CYCLEGAN_CONFIG ?dir 1 2 1
               (example_state :: (cnet, nat) state)))) =
       [(\<lparr> c_model = \<lparr> m_input = ''input'', m_output = Call Discr1 (Input ''input'') \<rparr>,
           c_loss = Binary_crossentropy, c_metrics = [''accuracy''], c_trainable = [Discr1] \<rparr>, [[1], [1]])]"
    using x
    by (simp add: cyclegan_train_unfold [OF e] cyclegan_iteration_nonempty raised_def final_state_def
          train_on_batch_def fits_append fits_Printed example_state_def ones_def numeral_2_eq_2
          del: of_nat_unat)
  have comb: "getattr (cyclegan_init CYCLEGAN_CONFIG) ''comb'' =
       Inr (CompiledV \<lparr> c_model = \<lparr> m_input = ''x'', m_output = Call Gen2 (Call Gen1 (Input ''x'')) \<rparr>,
                        c_loss = Mean_absolute_error, c_metrics = [], c_trainable = [Gen1, Gen2] \<rparr>)"
    by (simp add: getattr_def cyclegan_init_def Let_def compile_def)
  show ?thesis using run comb by blast
qed


section \<open>Properties of saving\<close>

lemma saved_files_append: "saved_files (xs @ ys) = saved_files xs @ saved_files ys"
  by (induction xs rule: saved_files.induct) auto

lemma dcgan_save_images_files:
  "saved_files (trace (dcgan_save_images K r self epoch st)) =
     saved_files (trace st) @ [path_join (self_otp_path self) (''dcgan_'' @ fmt_04i epoch @ ''.png'')]"
  by (simp add: dcgan_save_images_def Let_def saved_files_append dcgan_save_path_def)

lemma dcgan_iteration_files:
  assumes "x_train \<noteq> []"
  shows "saved_files (trace (final_state (dcgan_iteration K r self x_train half_batch save_interval epoch st))) =
     saved_files (trace st) @
     (if save_interval \<noteq> 0 \<and> int epoch mod save_interval = 0
      then [path_join (self_otp_path self) (''dcgan_'' @ fmt_04i epoch @ ''.png'')] else [])"
  using assms
  by (simp add: dcgan_iteration_def randint_nonempty Let_def train_on_batch_def final_state_def
        saved_files_append dcgan_save_images_files)

lemma digit_char_val: "d < 10 \<Longrightarrow> of_char (digit_char d) = 48 + d"
  by (simp add: digit_char_def)

lemma int_of_digits_append:
  "foldl (\<lambda>a c. 10 * a + (of_char c - 48)) v (s @ t) = foldl (\<lambda>a c. 10 * a + (of_char c - 48)) (foldl (\<lambda>a c. 10 * a + (of_char c - 48)) v s) t"
  by simp

lemma int_of_str_nat: "foldl (\<lambda>a c. 10 * a + (of_char c - (48 :: nat))) 0 (str_nat n) = n"
proof (induction n rule: str_nat.induct)
  case (1 n)
  show ?case
  proof (cases "n < 10")
    case True
    then show ?thesis by (subst str_nat.simps) (simp add: digit_char_val)
  next
    case False
    then have "foldl (\<lambda>a c. 10 * a + (of_char c - (48 :: nat))) 0 (str_nat (n div 10)) = n div 10"
      using 1 by simp
    with False show ?thesis
      by (subst str_nat.simps) (simp add: digit_char_val)
  qed
qed

lemma int_of_zeros:
  "foldl (\<lambda>a c. 10 * a + (of_char c - (48 :: nat))) 0 (replicate k (CHR ''0'')) = 0"
  by (induction k) auto

lemma int_of_fmt_04i: "foldl (\<lambda>a c. 10 * a + (of_char c - (48 :: nat))) 0 (fmt_04i n) = n"
  by (simp add: fmt_04i_def int_of_zeros int_of_str_nat)

lemma fmt_04i_inj: "fmt_04i m = fmt_04i n \<Longrightarrow> m = n"
  by (metis int_of_fmt_04i)

lemma path_join_inj: "path_join a b = path_join a c \<Longrightarrow> b = c"
  by (auto simp: path_join_def split: if_splits)

text \<open>
  In the DCGAN a save epoch writes one file, named by the epoch, and two epochs never
  share a name.
\<close>

lemma dcgan_save_path_inj: "dcgan_save_path self m = dcgan_save_path self n \<Longrightarrow> m = n"
  by (auto simp: dcgan_save_path_def dest!: path_join_inj fmt_04i_inj)

lemma fmt_04i_3: "fmt_04i 3 = ''0003''"
  by code_simp

lemma dcgan_save_path_example:
  "dcgan_save_path (dcgan_init DCGAN_CONFIG) 3 = ''../output/dcgan_0003.png''"
  by (simp add: dcgan_save_path_def dcgan_init_def Let_def DCGAN_CONFIG_def path_join_def fmt_04i_3)

text \<open>
  Claim C8. \<open>DCGAN.save_images(3)\<close> writes \<open>../output/dcgan_0003.png\<close>.
  \<open>CYCLEGAN.save_images(3)\<close> writes no file: it raises \<open>AttributeError\<close> on \<open>self.gen\<close>,
  a name that \<open>__init__\<close> never binds; and the name it passes to \<open>out.save\<close> is the
  literal \<open>output/dcgan_%04i.png\<close>, the same for every epoch, the \<open>% epoch\<close> of the
  DCGAN script being absent.
\<close>

theorem cyclegan_save_images_fails:
  "raised (cyclegan_save_images example_keras example_rng CYCLEGAN_CONFIG (cyclegan_init CYCLEGAN_CONFIG) 3
      (example_state :: (cnet, nat) state)) = Some (AttributeError ''gen'')
   \<and> saved_files (trace (final_state (cyclegan_save_images example_keras example_rng CYCLEGAN_CONFIG
        (cyclegan_init CYCLEGAN_CONFIG) 3 (example_state :: (cnet, nat) state)))) = []
   \<and> cyclegan_save_path 3 = ''output/dcgan_%04i.png''
   \<and> cyclegan_save_path 0 = cyclegan_save_path 3
   \<and> dcgan_save_path (dcgan_init DCGAN_CONFIG) 3 = ''../output/dcgan_0003.png''"
  by (simp add: cyclegan_save_images_def getattr_gen raised_def final_state_def example_state_def
        cyclegan_save_path_def dcgan_save_path_example)


end
